theory Spec2Isabelle
  imports Main
begin

section \<open>List stores of the web admin: filters, pagination, debounce, request tracking\<close>

text \<open>
  The repository's list views (stock tickers, ingestion runs, bulk queue runs) are each
  backed by an Alpine store with the same shape: a filter object, two pagination
  cursors, a load function that calls the API store and commits the response, and, in
  the stores with real-time filtering, per-key debounce timers and an AbortController
  for the request in flight.

  Strings are lists of 8-bit characters (the Latin-1 range of JavaScript's code units).
  Filter fields hold strings, as the stores initialise them, as the text and select
  inputs bound to them write them, and as \<^verbatim>\<open>setInitialFilters\<close> stores them
  (\<^verbatim>\<open>String(x).trim()\<close>).
\<close>

subsection \<open>JavaScript strings\<close>

text \<open>The white space of \<^verbatim>\<open>String.prototype.trim\<close> below U+0100:
  TAB, LF, VT, FF, CR, SPACE and NBSP.\<close>

definition isWhitespace :: "char \<Rightarrow> bool" where
  "isWhitespace c \<longleftrightarrow> (of_char c :: nat) \<in> {9, 10, 11, 12, 13, 32, 160}"

definition trim :: "string \<Rightarrow> string" where
  "trim s = rev (dropWhile isWhitespace (rev (dropWhile isWhitespace s)))"

text \<open>\<^verbatim>\<open>String.prototype.toLowerCase\<close> on the Latin-1 range: A-Z and the accented
  capitals U+00C0..U+00DE (without the multiplication sign U+00D7) move up by 32.\<close>

definition lowerChar :: "char \<Rightarrow> char" where
  "lowerChar c =
     (let n = (of_char c :: nat)
      in if (65 \<le> n \<and> n \<le> 90) \<or> (192 \<le> n \<and> n \<le> 222 \<and> n \<noteq> 215)
         then char_of (n + 32) else c)"

definition toLowerCase :: "string \<Rightarrow> string" where
  "toLowerCase s = map lowerChar s"

definition isDigit :: "char \<Rightarrow> bool" where
  "isDigit c \<longleftrightarrow> c \<in> set ''0123456789''"

text \<open>The test \<^verbatim>\<open>/^\d{4}-\d{2}-\d{2}$/\<close> of \<^verbatim>\<open>loadRuns\<close> and of
  \<^verbatim>\<open>dateUtils._isDateOnly\<close>.\<close>

definition isDateOnly :: "string \<Rightarrow> bool" where
  "isDateOnly s =
     (case s of
        [y1, y2, y3, y4, h1, m1, m2, h2, d1, d2] \<Rightarrow>
          isDigit y1 \<and> isDigit y2 \<and> isDigit y3 \<and> isDigit y4 \<and> h1 = CHR ''-'' \<and>
          isDigit m1 \<and> isDigit m2 \<and> h2 = CHR ''-'' \<and> isDigit d1 \<and> isDigit d2
      | _ \<Rightarrow> False)"

text \<open>\<^verbatim>\<open>String(n)\<close> for a non-negative integer.\<close>

definition digitChar :: "nat \<Rightarrow> char" where
  "digitChar d = (if d < 10 then ''0123456789'' ! d else CHR ''?'')"

function showNat :: "nat \<Rightarrow> string" where
  "showNat n = (if n < 10 then [digitChar n] else showNat (n div 10) @ [digitChar (n mod 10)])"
  by pat_completeness auto
termination
  by (relation "measure id") auto

subsection \<open>JavaScript objects with string keys\<close>

text \<open>An object is the list of its own properties in insertion order;
  \<^verbatim>\<open>o[k]\<close> of a missing key is \<^verbatim>\<open>undefined\<close>, here \<open>None\<close>;
  \<^verbatim>\<open>o[k] = v\<close> overwrites in place or appends.\<close>

type_synonym 'v obj = "(string \<times> 'v) list"

definition objGet :: "'v obj \<Rightarrow> string \<Rightarrow> 'v option" where
  "objGet ob k = map_of ob k"

fun objSet :: "'v obj \<Rightarrow> string \<Rightarrow> 'v \<Rightarrow> 'v obj" where
  "objSet [] k v = [(k, v)]"
| "objSet ((k', v') # ps) k v = (if k' = k then (k, v) # ps else (k', v') # objSet ps k v)"

definition objKeys :: "'v obj \<Rightarrow> string list" where
  "objKeys ob = map fst ob"

subsection \<open>Filter normalisation\<close>

text \<open>A value handed to the API store is a string or a boolean.\<close>

datatype tval = TStr string | TBool bool

text \<open>\<^verbatim>\<open>String(v)\<close> as \<^verbatim>\<open>URLSearchParams.append\<close> applies it.\<close>

fun toParam :: "tval \<Rightarrow> string" where
  "toParam (TStr s) = s"
| "toParam (TBool b) = (if b then ''true'' else ''false'')"

text \<open>The three branches of the \<^verbatim>\<open>forEach\<close> body in the load functions. A
  filter field holds a string, so the boolean branch always takes its
  \<^verbatim>\<open>typeof value === 'string'\<close> side: any non-empty value is compared, in lower
  case, with \<^verbatim>\<open>'true'\<close>.\<close>

definition stringFilter :: "string \<Rightarrow> tval option" where
  "stringFilter v = (if v \<noteq> [] \<and> trim v \<noteq> [] then Some (TStr (trim v)) else None)"

definition booleanFilter :: "string \<Rightarrow> tval option" where
  "booleanFilter v = (if v \<noteq> [] then Some (TBool (toLowerCase v = ''true'')) else None)"

text \<open>The date branch takes the conversion applied to the trimmed value: the runs store of
  \<^verbatim>\<open>listStore.js\<close> appends a fixed suffix after the pattern test
  (\<open>midnightZ\<close>), the other stores call \<^verbatim>\<open>window.dateUtils.dateToUTCISO\<close>;
  a falsy result is dropped.\<close>

definition dateFilter :: "(string \<Rightarrow> string option) \<Rightarrow> string \<Rightarrow> tval option" where
  "dateFilter conv v =
     (if v \<noteq> [] \<and> trim v \<noteq> []
      then (case conv (trim v) of
              Some utc \<Rightarrow> if utc \<noteq> [] then Some (TStr utc) else None
            | None \<Rightarrow> None)
      else None)"

definition midnightZ :: "string \<Rightarrow> string option" where
  "midnightZ dateValue = (if isDateOnly dateValue then Some (dateValue @ ''T00:00:00Z'') else None)"

text \<open>\<^verbatim>\<open>Object.keys(this.filters).forEach(key => ...)\<close>: every key is visited once, in
  order, and writes at most one property of \<^verbatim>\<open>activeFilters\<close>.\<close>

definition buildActive :: "(string \<Rightarrow> string \<Rightarrow> tval option) \<Rightarrow> string obj \<Rightarrow> tval obj" where
  "buildActive norm fs =
     fold (\<lambda>key af. case objGet fs key of
                       None \<Rightarrow> af
                     | Some v \<Rightarrow> (case norm key v of None \<Rightarrow> af | Some t \<Rightarrow> objSet af key t))
          (objKeys fs) []"

text \<open>\<^verbatim>\<open>loadStocks\<close>: every key is a string filter.\<close>

definition stocksNorm :: "string \<Rightarrow> string \<Rightarrow> tval option" where
  "stocksNorm key v = stringFilter v"

text \<open>\<^verbatim>\<open>loadRuns\<close>: two boolean keys, two date keys.\<close>

definition runsNorm :: "(string \<Rightarrow> string option) \<Rightarrow> string \<Rightarrow> string \<Rightarrow> tval option" where
  "runsNorm conv key v =
     (if key = ''is_terminal'' \<or> key = ''is_in_progress'' then booleanFilter v
      else if key = ''created_after'' \<or> key = ''created_before'' then dateFilter conv v
      else stringFilter v)"

text \<open>\<^verbatim>\<open>loadBulkQueueRuns\<close>: two boolean keys, six date keys.\<close>

definition bulkNorm :: "(string \<Rightarrow> string option) \<Rightarrow> string \<Rightarrow> string \<Rightarrow> tval option" where
  "bulkNorm conv key v =
     (if key = ''is_completed'' \<or> key = ''has_errors'' then booleanFilter v
      else if key = ''created_after'' \<or> key = ''created_before'' \<or>
              key = ''started_at_after'' \<or> key = ''started_at_before'' \<or>
              key = ''completed_at_after'' \<or> key = ''completed_at_before''
           then dateFilter conv v
      else stringFilter v)"

subsection \<open>The API stores: query parameters\<close>

text \<open>The pagination parameters, appended when truthy.\<close>

definition pageParams :: "nat \<Rightarrow> string option \<Rightarrow> (string \<times> string) list" where
  "pageParams pgSize cursor =
     (if pgSize \<noteq> 0 then [(''page_size'', showNat pgSize)] else []) @
     (case cursor of Some c \<Rightarrow> if c \<noteq> [] then [(''cursor'', c)] else [] | None \<Rightarrow> [])"

text \<open>String keys skip null, undefined and the empty string; boolean keys skip null and
  undefined only.\<close>

definition stringParam :: "tval obj \<Rightarrow> string \<Rightarrow> (string \<times> string) list" where
  "stringParam fltrs key =
     (case objGet fltrs key of
        None \<Rightarrow> []
      | Some v \<Rightarrow> if v \<noteq> TStr [] then [(key, toParam v)] else [])"

definition booleanParam :: "tval obj \<Rightarrow> string \<Rightarrow> (string \<times> string) list" where
  "booleanParam fltrs key =
     (case objGet fltrs key of None \<Rightarrow> [] | Some v \<Rightarrow> [(key, toParam v)])"

definition filterParams :: "tval obj \<Rightarrow> string list \<Rightarrow> string list \<Rightarrow> (string \<times> string) list" where
  "filterParams fltrs stringFilterKeys booleanFilterKeys =
     concat (map (stringParam fltrs) stringFilterKeys) @
     concat (map (booleanParam fltrs) booleanFilterKeys)"

definition buildQueryParams ::
  "nat \<Rightarrow> string option \<Rightarrow> tval obj \<Rightarrow> string list \<Rightarrow> string list \<Rightarrow> (string \<times> string) list" where
  "buildQueryParams pgSize cursor fltrs stringFilterKeys booleanFilterKeys =
     pageParams pgSize cursor @ filterParams fltrs stringFilterKeys booleanFilterKeys"

definition listTickersKeys :: "string list" where
  "listTickersKeys = [''ticker'', ''ticker__icontains'', ''sector'', ''sector__icontains'',
                      ''exchange__name'', ''country'']"

definition listTickersParams :: "nat \<Rightarrow> string option \<Rightarrow> tval obj \<Rightarrow> (string \<times> string) list" where
  "listTickersParams pgSize cursor fltrs =
     pageParams pgSize cursor @ concat (map (stringParam fltrs) listTickersKeys)"

definition listRunsStringKeys :: "string list" where
  "listRunsStringKeys = [''ticker'', ''ticker__icontains'', ''state'', ''requested_by'',
                         ''requested_by__icontains'', ''created_after'', ''created_before'',
                         ''run_id'', ''bulk_queue_run'']"

definition listRunsBooleanKeys :: "string list" where
  "listRunsBooleanKeys = [''is_terminal'', ''is_in_progress'']"

definition listRunsParams :: "nat \<Rightarrow> string option \<Rightarrow> tval obj \<Rightarrow> (string \<times> string) list" where
  "listRunsParams pgSize cursor fltrs =
     buildQueryParams pgSize cursor fltrs listRunsStringKeys listRunsBooleanKeys"

subsection \<open>Cursor extraction\<close>

text \<open>An exception value: its \<^verbatim>\<open>name\<close> and \<^verbatim>\<open>message\<close>.\<close>

record jserror =
  errName :: string
  errMessage :: string

text \<open>The platform's \<^verbatim>\<open>URL\<close> object, as far as the stores read it: the list of
  its query parameters. The constructor \<^verbatim>\<open>new URL(url)\<close> belongs to the platform and
  is a parameter: it returns the object or throws.\<close>

datatype url = URL (searchParams: "(string \<times> string) list")

type_synonym urlParser = "string \<Rightarrow> jserror + url"

text \<open>The \<^verbatim>\<open>try\<close> block of \<^verbatim>\<open>extractCursor\<close>;
  \<^verbatim>\<open>searchParams.get\<close> returns the first value of the name, or null.\<close>

definition extractCursorTry :: "urlParser \<Rightarrow> string \<Rightarrow> jserror + string option" where
  "extractCursorTry newURL u =
     (case newURL u of
        Inl e \<Rightarrow> Inl e
      | Inr urlObj \<Rightarrow> Inr (map_of (searchParams urlObj) ''cursor''))"

text \<open>The whole function: the \<^verbatim>\<open>catch\<close> block logs and returns null.\<close>

definition extractCursor :: "urlParser \<Rightarrow> string \<Rightarrow> jserror + string option" where
  "extractCursor newURL u =
     (case extractCursorTry newURL u of Inl e \<Rightarrow> Inr None | Inr c \<Rightarrow> Inr c)"

text \<open>\<^verbatim>\<open>response.next ? this.extractCursor(response.next) : null\<close>.\<close>

definition cursorOf :: "urlParser \<Rightarrow> string option \<Rightarrow> jserror + string option" where
  "cursorOf newURL reference =
     (case reference of
        None \<Rightarrow> Inr None
      | Some u \<Rightarrow> if u \<noteq> [] then extractCursor newURL u else Inr None)"

subsection \<open>The store and its environment\<close>

text \<open>A call of the API store's list function: its three arguments.\<close>

record request =
  reqPageSize :: nat
  reqCursor :: "string option"
  reqFilters :: "tval obj"

text \<open>The paginated response: \<^verbatim>\<open>results\<close> (falsy when absent), \<^verbatim>\<open>next\<close> and
  \<^verbatim>\<open>previous\<close>.\<close>

record 'i response =
  results :: "'i list option"
  nextRef :: "string option"
  previousRef :: "string option"

text \<open>The fields of a list store, followed by the part of the environment its functions
  touch: the AbortController objects created so far (the \<^verbatim>\<open>aborted\<close> flag of
  each; a controller is referred to by its position), the pending timeouts (handle, the
  filter key the callback closes over, due time), the number of timeouts created, the
  clock in milliseconds, the calls made to the API store, whether
  \<^verbatim>\<open>Alpine.store\<close> finds the API store, and the caller's offset from UTC in minutes.
  The stores without real-time filtering have no timers and no controller and leave
  those fields alone. The last five fields belong to the exchange dropdown of the stocks
  store: the exchanges, its two flags, the calls made to the metadata API store and
  whether that store is there.\<close>

record 'i store =
  items :: "'i list"
  loading :: bool
  error :: "string option"
  nextCursor :: "string option"
  previousCursor :: "string option"
  pageSize :: nat
  filters :: "string obj"
  debounceTimers :: "nat option obj"
  debounceDelay :: nat
  currentRequestController :: "nat option"
  controllers :: "bool list"
  timers :: "(nat \<times> string \<times> nat) list"
  timerCount :: nat
  clock :: nat
  requests :: "request list"
  apiAvailable :: bool
  utcOffset :: int
  exchanges :: "'i list"
  exchangesLoading :: bool
  exchangesLoaded :: bool
  metadataRequests :: "request list"
  metadataAvailable :: bool

text \<open>What differs between the stores: the branch taken per filter key, the two messages,
  and the object \<^verbatim>\<open>clearFilters\<close> assigns.\<close>

record config =
  normalise :: "int \<Rightarrow> string \<Rightarrow> string \<Rightarrow> tval option"
  failedMessage :: string
  apiMissingMessage :: string
  clearedFilters :: "string obj"

definition stocksList :: config where
  "stocksList =
     \<lparr> normalise = (\<lambda>offset. stocksNorm),
       failedMessage = ''Failed to load stocks'',
       apiMissingMessage = ''Stocks API store is not available'',
       clearedFilters = [(''ticker__icontains'', ''''), (''sector__name__icontains'', ''''),
                         (''exchange__name'', ''''), (''country'', '''')] \<rparr>"

definition stocksListPlain :: config where
  "stocksListPlain =
     \<lparr> normalise = (\<lambda>offset. stocksNorm),
       failedMessage = ''Failed to load stocks'',
       apiMissingMessage = ''Stocks API store is not available'',
       clearedFilters = [(''ticker'', ''''), (''ticker__icontains'', ''''), (''sector__name'', ''''),
                         (''sector__name__icontains'', ''''), (''exchange__name'', ''''),
                         (''country'', '''')] \<rparr>"

text \<open>The runs store with real-time filtering and the bulk queue runs store call
  \<^verbatim>\<open>window.dateUtils.dateToUTCISO(dateValue)\<close>. No source file defines that
  function (\<^verbatim>\<open>dateUtils\<close> has \<^verbatim>\<open>parseDate\<close>, \<^verbatim>\<open>formatDate\<close> and
  others, not this one), so it is a parameter of the two stores: whatever it returns for
  the trimmed value in the caller's environment, of which it is handed the offset from
  UTC.\<close>

definition runsList :: "(int \<Rightarrow> string \<Rightarrow> string option) \<Rightarrow> config" where
  "runsList dateToUTCISO =
     \<lparr> normalise = (\<lambda>offset. runsNorm (dateToUTCISO offset)),
       failedMessage = ''Failed to load runs'',
       apiMissingMessage = ''Runs API store is not available'',
       clearedFilters = [(''run_id'', ''''), (''ticker__icontains'', ''''), (''state'', ''''),
                         (''requested_by__icontains'', ''''), (''created_after'', ''''),
                         (''created_before'', ''''), (''is_terminal'', ''''),
                         (''is_in_progress'', ''''), (''bulk_queue_run'', '''')] \<rparr>"

definition runsListPlain :: config where
  "runsListPlain =
     \<lparr> normalise = (\<lambda>offset. runsNorm midnightZ),
       failedMessage = ''Failed to load runs'',
       apiMissingMessage = ''Runs API store is not available'',
       clearedFilters = [(''ticker'', ''''), (''ticker__icontains'', ''''), (''state'', ''''),
                         (''requested_by'', ''''), (''requested_by__icontains'', ''''),
                         (''created_after'', ''''), (''created_before'', ''''),
                         (''is_terminal'', ''''), (''is_in_progress'', ''''),
                         (''bulk_queue_run'', ''''), (''run_id'', '''')] \<rparr>"

definition bulkQueueRunsList :: "(int \<Rightarrow> string \<Rightarrow> string option) \<Rightarrow> config" where
  "bulkQueueRunsList dateToUTCISO =
     \<lparr> normalise = (\<lambda>offset. bulkNorm (dateToUTCISO offset)),
       failedMessage = ''Failed to load bulk queue runs'',
       apiMissingMessage = ''Runs API store is not available'',
       clearedFilters = [(''requested_by__icontains'', ''''), (''created_after'', ''''),
                         (''created_before'', ''''), (''started_at_after'', ''''),
                         (''started_at_before'', ''''), (''completed_at_after'', ''''),
                         (''completed_at_before'', ''''), (''is_completed'', ''''),
                         (''has_errors'', '''')] \<rparr>"

definition activeFilters :: "config \<Rightarrow> 'i store \<Rightarrow> tval obj" where
  "activeFilters cfg w = buildActive (normalise cfg (utcOffset w)) (filters w)"

text \<open>\<^verbatim>\<open>error.message || 'Failed to load ...'\<close>.\<close>

definition messageOr :: "jserror \<Rightarrow> string \<Rightarrow> string" where
  "messageOr e fallback = (if errMessage e \<noteq> [] then errMessage e else fallback)"

definition resetCursors :: "'i store \<Rightarrow> 'i store" where
  "resetCursors w = w\<lparr>nextCursor := None, previousCursor := None\<rparr>"

text \<open>A non-empty string is truthy.\<close>

definition truthy :: "string option \<Rightarrow> bool" where
  "truthy c = (case c of None \<Rightarrow> False | Some s \<Rightarrow> s \<noteq> [])"

subsection \<open>Loading with request tracking\<close>

text \<open>The stocks store and the runs store with real-time filtering keep the
  AbortController of the latest call in \<^verbatim>\<open>_currentRequestController\<close>. An
  \<^verbatim>\<open>async\<close> function runs up to its \<^verbatim>\<open>await\<close> when called and continues when
  the awaited promise settles, so the load function is three functions: the call, the
  continuation after a fulfilled promise and the continuation after a rejected one. The
  continuation after fulfilment still holds the \<^verbatim>\<open>signal\<close> taken at the call.\<close>

definition aborted :: "'i store \<Rightarrow> nat \<Rightarrow> bool" where
  "aborted w c \<longleftrightarrow> c < length (controllers w) \<and> controllers w ! c"

definition abort :: "nat \<Rightarrow> 'i store \<Rightarrow> 'i store" where
  "abort c w = w\<lparr>controllers := (controllers w)[c := True]\<rparr>"

definition newController :: "'i store \<Rightarrow> 'i store" where
  "newController w =
     w\<lparr>controllers := controllers w @ [False],
       currentRequestController := Some (length (controllers w))\<rparr>"

text \<open>The \<^verbatim>\<open>finally\<close> block: it reads the controller the store holds now.\<close>

definition finish :: "'i store \<Rightarrow> 'i store" where
  "finish w =
     (case currentRequestController w of
        None \<Rightarrow> w
      | Some c \<Rightarrow> if \<not> aborted w c then w\<lparr>loading := False\<rparr> else w)"

text \<open>The \<^verbatim>\<open>catch\<close> block, followed by \<^verbatim>\<open>finally\<close>. Its test reads the error's
  name and, again, the controller the store holds now.\<close>

definition caught :: "config \<Rightarrow> jserror \<Rightarrow> 'i store \<Rightarrow> 'i store" where
  "caught cfg e w =
     (if errName e = ''AbortError'' \<or>
         (case currentRequestController w of None \<Rightarrow> False | Some c \<Rightarrow> aborted w c)
      then finish (w\<lparr>loading := False\<rparr>)
      else finish (w\<lparr>error := Some (messageOr e (failedMessage cfg)), items := [],
                     nextCursor := None, previousCursor := None\<rparr>))"

text \<open>The call, up to \<^verbatim>\<open>await api.list...(this.pageSize, cursor, activeFilters)\<close>.
  A missing API store throws before any request is made.\<close>

definition loadCall :: "config \<Rightarrow> string option \<Rightarrow> 'i store \<Rightarrow> 'i store" where
  "loadCall cfg cursor w =
     (let w1 = (case currentRequestController w of None \<Rightarrow> w | Some c \<Rightarrow> abort c w);
          w2 = newController w1;
          w3 = w2\<lparr>loading := True, error := None\<rparr>
      in if apiAvailable w3
         then w3\<lparr>requests := requests w3 @
                    [\<lparr>reqPageSize = pageSize w3, reqCursor = cursor,
                      reqFilters = activeFilters cfg w3\<rparr>]\<rparr>
         else caught cfg \<lparr>errName = ''Error'', errMessage = apiMissingMessage cfg\<rparr> w3)"

text \<open>The signal of the call just made.\<close>

definition signalOf :: "'i store \<Rightarrow> nat" where
  "signalOf w = (case currentRequestController w of None \<Rightarrow> 0 | Some c \<Rightarrow> c)"

text \<open>After the promise is fulfilled with \<open>resp\<close>, for the call whose signal is \<open>sig\<close>.\<close>

definition loadFulfilled ::
  "config \<Rightarrow> urlParser \<Rightarrow> nat \<Rightarrow> 'i response \<Rightarrow> 'i store \<Rightarrow> 'i store" where
  "loadFulfilled cfg newURL sig resp w =
     (if aborted w sig then finish (w\<lparr>loading := False\<rparr>)
      else
        let w1 = w\<lparr>items := (case results resp of None \<Rightarrow> [] | Some rs \<Rightarrow> rs)\<rparr>
        in case cursorOf newURL (nextRef resp) of
             Inl e \<Rightarrow> caught cfg e w1
           | Inr n \<Rightarrow>
               (case cursorOf newURL (previousRef resp) of
                  Inl e \<Rightarrow> caught cfg e (w1\<lparr>nextCursor := n\<rparr>)
                | Inr p \<Rightarrow> finish (w1\<lparr>nextCursor := n, previousCursor := p\<rparr>)))"

text \<open>After the promise is rejected with \<open>e\<close>: the \<^verbatim>\<open>catch\<close> block; the signal of
  the call is out of its scope.\<close>

definition loadRejected :: "config \<Rightarrow> jserror \<Rightarrow> 'i store \<Rightarrow> 'i store" where
  "loadRejected cfg e w = caught cfg e w"

subsection \<open>Loading without request tracking\<close>

text \<open>The runs and bulk queue runs stores of \<^verbatim>\<open>listStore.js\<close> and the stocks store
  without real-time filtering: no controller, and \<^verbatim>\<open>finally\<close> always clears
  \<^verbatim>\<open>loading\<close>.\<close>

definition plainCaught :: "config \<Rightarrow> jserror \<Rightarrow> 'i store \<Rightarrow> 'i store" where
  "plainCaught cfg e w =
     w\<lparr>error := Some (messageOr e (failedMessage cfg)), items := [],
       nextCursor := None, previousCursor := None, loading := False\<rparr>"

definition plainCall :: "config \<Rightarrow> string option \<Rightarrow> 'i store \<Rightarrow> 'i store" where
  "plainCall cfg cursor w =
     (let w1 = w\<lparr>loading := True, error := None\<rparr>
      in if apiAvailable w1
         then w1\<lparr>requests := requests w1 @
                    [\<lparr>reqPageSize = pageSize w1, reqCursor = cursor,
                      reqFilters = activeFilters cfg w1\<rparr>]\<rparr>
         else plainCaught cfg \<lparr>errName = ''Error'', errMessage = apiMissingMessage cfg\<rparr> w1)"

definition plainFulfilled :: "config \<Rightarrow> urlParser \<Rightarrow> 'i response \<Rightarrow> 'i store \<Rightarrow> 'i store" where
  "plainFulfilled cfg newURL resp w =
     (let w1 = w\<lparr>items := (case results resp of None \<Rightarrow> [] | Some rs \<Rightarrow> rs)\<rparr>
      in case cursorOf newURL (nextRef resp) of
           Inl e \<Rightarrow> plainCaught cfg e w1
         | Inr n \<Rightarrow>
             (case cursorOf newURL (previousRef resp) of
                Inl e \<Rightarrow> plainCaught cfg e (w1\<lparr>nextCursor := n\<rparr>)
              | Inr p \<Rightarrow> w1\<lparr>nextCursor := n, previousCursor := p, loading := False\<rparr>))"

definition plainRejected :: "config \<Rightarrow> jserror \<Rightarrow> 'i store \<Rightarrow> 'i store" where
  "plainRejected cfg e w = plainCaught cfg e w"

subsection \<open>The commands of a store\<close>

definition applyFilters :: "config \<Rightarrow> 'i store \<Rightarrow> 'i store" where
  "applyFilters cfg w = loadCall cfg None (resetCursors w)"

definition clearTimeout :: "nat \<Rightarrow> 'i store \<Rightarrow> 'i store" where
  "clearTimeout t w = w\<lparr>timers := filter (\<lambda>(i, key, due). i \<noteq> t) (timers w)\<rparr>"

text \<open>\<^verbatim>\<open>if (this._debounceTimers[key]) { clearTimeout(...); this._debounceTimers[key] = null; }\<close>;
  a timer handle is a positive number.\<close>

definition cancelTimer :: "string \<Rightarrow> 'i store \<Rightarrow> 'i store" where
  "cancelTimer key w =
     (case objGet (debounceTimers w) key of
        Some (Some t) \<Rightarrow>
          if 0 < t
          then (clearTimeout t w)\<lparr>debounceTimers := objSet (debounceTimers w) key None\<rparr>
          else w
      | _ \<Rightarrow> w)"

definition clearFilters :: "config \<Rightarrow> 'i store \<Rightarrow> 'i store" where
  "clearFilters cfg w =
     applyFilters cfg
       ((fold cancelTimer (objKeys (debounceTimers w)) w)\<lparr>filters := clearedFilters cfg\<rparr>)"

definition nextPage :: "config \<Rightarrow> 'i store \<Rightarrow> 'i store" where
  "nextPage cfg w = (if truthy (nextCursor w) then loadCall cfg (nextCursor w) w else w)"

definition previousPage :: "config \<Rightarrow> 'i store \<Rightarrow> 'i store" where
  "previousPage cfg w =
     (if truthy (previousCursor w) then loadCall cfg (previousCursor w) w else w)"

text \<open>The callback handed to \<^verbatim>\<open>setTimeout\<close> for a filter key.\<close>

definition timerFired :: "config \<Rightarrow> string \<Rightarrow> 'i store \<Rightarrow> 'i store" where
  "timerFired cfg key w =
     (let w1 = loadCall cfg None (resetCursors w)
      in w1\<lparr>debounceTimers := objSet (debounceTimers w1) key None\<rparr>)"

definition handleDebouncedFilter :: "config \<Rightarrow> string \<Rightarrow> string \<Rightarrow> 'i store \<Rightarrow> 'i store" where
  "handleDebouncedFilter cfg filterKey val w =
     (let w1 = cancelTimer filterKey w;
          w2 = w1\<lparr>filters := objSet (filters w1) filterKey val\<rparr>
      in if trim val = [] then loadCall cfg None (resetCursors w2)
         else let t = Suc (timerCount w2)
              in w2\<lparr>timerCount := t,
                    timers := timers w2 @ [(t, filterKey, clock w2 + debounceDelay w2)],
                    debounceTimers := objSet (debounceTimers w2) filterKey (Some t)\<rparr>)"

text \<open>Time passes: the clock advances by \<open>d\<close> milliseconds and the timeouts that have come
  due run, earliest first.\<close>

definition elapse :: "config \<Rightarrow> nat \<Rightarrow> 'i store \<Rightarrow> 'i store" where
  "elapse cfg d w =
     (let now = clock w + d;
          due = filter (\<lambda>(i, key, t). t \<le> now) (timers w);
          rest = filter (\<lambda>(i, key, t). \<not> t \<le> now) (timers w)
      in fold (\<lambda>(i, key, t). timerFired cfg key) (sort_key (\<lambda>(i, key, t). t) due)
              (w\<lparr>clock := now, timers := rest\<rparr>))"

text \<open>The same commands in the stores without request tracking.\<close>

definition plainApplyFilters :: "config \<Rightarrow> 'i store \<Rightarrow> 'i store" where
  "plainApplyFilters cfg w = plainCall cfg None (resetCursors w)"

definition plainClearFilters :: "config \<Rightarrow> 'i store \<Rightarrow> 'i store" where
  "plainClearFilters cfg w = plainApplyFilters cfg (w\<lparr>filters := clearedFilters cfg\<rparr>)"

definition plainNextPage :: "config \<Rightarrow> 'i store \<Rightarrow> 'i store" where
  "plainNextPage cfg w = (if truthy (nextCursor w) then plainCall cfg (nextCursor w) w else w)"

definition plainPreviousPage :: "config \<Rightarrow> 'i store \<Rightarrow> 'i store" where
  "plainPreviousPage cfg w =
     (if truthy (previousCursor w) then plainCall cfg (previousCursor w) w else w)"

text \<open>A burst of typing into one filter: each keystroke calls the debounced handler and is
  followed by some milliseconds without input.\<close>

fun typing :: "config \<Rightarrow> string \<Rightarrow> (string \<times> nat) list \<Rightarrow> 'i store \<Rightarrow> 'i store" where
  "typing cfg key [] w = w"
| "typing cfg key ((v, gap) # rest) w =
     typing cfg key rest (elapse cfg gap (handleDebouncedFilter cfg key v w))"

text \<open>The stocks store (with real-time filtering) and the runs store of
  \<^verbatim>\<open>listStore.js\<close> as the page creates them, in an environment where nothing has
  happened yet and the caller's clock is UTC.\<close>

definition stocksInit :: "nat store" where
  "stocksInit =
     \<lparr> items = [], loading = False, error = None, nextCursor = None, previousCursor = None,
       pageSize = 50,
       filters = [(''ticker__icontains'', []), (''sector__name__icontains'', []),
                  (''exchange__name'', []), (''country'', [])],
       debounceTimers = [(''ticker__icontains'', None), (''sector__name__icontains'', None)],
       debounceDelay = 400,
       currentRequestController = None, controllers = [], timers = [], timerCount = 0,
       clock = 0, requests = [], apiAvailable = True, utcOffset = 0,
       exchanges = [], exchangesLoading = False, exchangesLoaded = False,
       metadataRequests = [], metadataAvailable = True \<rparr>"

definition runsInit :: "nat store" where
  "runsInit =
     \<lparr> items = [], loading = False, error = None, nextCursor = None, previousCursor = None,
       pageSize = 50,
       filters = [(''run_id'', []), (''ticker'', []), (''ticker__icontains'', []),
                  (''state'', []), (''requested_by'', []), (''requested_by__icontains'', []),
                  (''created_after'', []), (''created_before'', []), (''is_terminal'', []),
                  (''is_in_progress'', []), (''bulk_queue_run'', [])],
       debounceTimers = [], debounceDelay = 0,
       currentRequestController = None, controllers = [], timers = [], timerCount = 0,
       clock = 0, requests = [], apiAvailable = True, utcOffset = 0,
       exchanges = [], exchangesLoading = False, exchangesLoaded = False,
       metadataRequests = [], metadataAvailable = True \<rparr>"

subsection \<open>The exchanges of the stocks store\<close>

text \<open>\<^verbatim>\<open>loadExchanges\<close> of the stocks store fills the exchange dropdown once. It
  shares the \<^verbatim>\<open>error\<close> field with the list: the call sets it to null and a
  failure sets it. Like the list load it is a call and two continuations; its request is
  always \<^verbatim>\<open>listExchanges(100, null, {})\<close>.\<close>

definition exchangesCaught :: "jserror \<Rightarrow> 'i store \<Rightarrow> 'i store" where
  "exchangesCaught e w =
     w\<lparr>error := Some (messageOr e ''Failed to load exchanges''), exchanges := [],
       exchangesLoading := False\<rparr>"

definition loadExchangesCall :: "'i store \<Rightarrow> 'i store" where
  "loadExchangesCall w =
     (if exchangesLoaded w then w
      else
        let w1 = w\<lparr>exchangesLoading := True, error := None\<rparr>
        in if metadataAvailable w1
           then w1\<lparr>metadataRequests := metadataRequests w1 @
                        [\<lparr>reqPageSize = 100, reqCursor = None, reqFilters = []\<rparr>]\<rparr>
           else exchangesCaught
                  \<lparr>errName = ''Error'', errMessage = ''Metadata API store is not available''\<rparr>
                  w1)"

definition loadExchangesFulfilled :: "'i response \<Rightarrow> 'i store \<Rightarrow> 'i store" where
  "loadExchangesFulfilled resp w =
     w\<lparr>exchanges := (case results resp of None \<Rightarrow> [] | Some rs \<Rightarrow> rs),
       exchangesLoaded := True, exchangesLoading := False\<rparr>"

definition loadExchangesRejected :: "jserror \<Rightarrow> 'i store \<Rightarrow> 'i store" where
  "loadExchangesRejected e w = exchangesCaught e w"

subsection \<open>Events\<close>

text \<open>What can happen to a store with request tracking: a command of the view, time
  passing, or the promise of an earlier call settling.\<close>

datatype 'i event =
    Load "string option"
  | ApplyFilters
  | ClearFilters
  | NextPage
  | PreviousPage
  | Debounced string string
  | Elapse nat
  | Fulfilled nat "'i response"
  | Rejected jserror
  | LoadExchanges
  | ExchangesFulfilled "'i response"
  | ExchangesRejected jserror

fun step :: "config \<Rightarrow> urlParser \<Rightarrow> 'i event \<Rightarrow> 'i store \<Rightarrow> 'i store" where
  "step cfg newURL (Load cursor) w = loadCall cfg cursor w"
| "step cfg newURL ApplyFilters w = applyFilters cfg w"
| "step cfg newURL ClearFilters w = clearFilters cfg w"
| "step cfg newURL NextPage w = nextPage cfg w"
| "step cfg newURL PreviousPage w = previousPage cfg w"
| "step cfg newURL (Debounced key v) w = handleDebouncedFilter cfg key v w"
| "step cfg newURL (Elapse d) w = elapse cfg d w"
| "step cfg newURL (Fulfilled sig resp) w = loadFulfilled cfg newURL sig resp w"
| "step cfg newURL (Rejected e) w = loadRejected cfg e w"
| "step cfg newURL LoadExchanges w = loadExchangesCall w"
| "step cfg newURL (ExchangesFulfilled resp) w = loadExchangesFulfilled resp w"
| "step cfg newURL (ExchangesRejected e) w = loadExchangesRejected e w"

definition run :: "config \<Rightarrow> urlParser \<Rightarrow> 'i event list \<Rightarrow> 'i store \<Rightarrow> 'i store" where
  "run cfg newURL es w = fold (step cfg newURL) es w"




subsection \<open>Vocabulary of the properties\<close>

definition cursorsAbsent :: "'i store \<Rightarrow> bool" where
  "cursorsAbsent w \<longleftrightarrow> nextCursor w = None \<and> previousCursor w = None"

text \<open>The page a store shows is the page of a response.\<close>

definition showsPage :: "urlParser \<Rightarrow> 'i response \<Rightarrow> 'i store \<Rightarrow> bool" where
  "showsPage newURL resp w \<longleftrightarrow>
     items w = (case results resp of None \<Rightarrow> [] | Some rs \<Rightarrow> rs) \<and>
     cursorOf newURL (nextRef resp) = Inr (nextCursor w) \<and>
     cursorOf newURL (previousRef resp) = Inr (previousCursor w)"

text \<open>Two states show the same page.\<close>

definition samePage :: "'i store \<Rightarrow> 'i store \<Rightarrow> bool" where
  "samePage w w' \<longleftrightarrow>
     items w' = items w \<and> nextCursor w' = nextCursor w \<and> previousCursor w' = previousCursor w"

text \<open>A URL constructor that accepts an absolute http URL with the single query parameter
  \<^verbatim>\<open>cursor\<close> on a fixed endpoint and rejects everything else, for evaluating examples.\<close>

definition tickersURL :: urlParser where
  "tickersURL u =
     (if take 36 u = ''http://localhost/api/tickers?cursor='' \<and> CHR ''&'' \<notin> set (drop 36 u)
      then Inr (URL [(''cursor'', drop 36 u)])
      else Inl \<lparr>errName = ''TypeError'', errMessage = ''Invalid URL''\<rparr>)"

text \<open>Before a keystroke on a filter key, either no timeout is pending or the only one
  pending is the one registered for that key.\<close>

definition idle :: "string \<Rightarrow> 'i store \<Rightarrow> bool" where
  "idle key s \<longleftrightarrow>
     timers s = [] \<or>
     (\<exists>i due. timers s = [(i, key, due)] \<and>
              objGet (debounceTimers s) key = Some (Some i) \<and> 0 < i)"

text \<open>A call is superseded, or about to be: its controller exists and either is the one the
  store holds, so that the next call will abort it, or is aborted already.\<close>

definition superseded :: "'i store \<Rightarrow> nat \<Rightarrow> bool" where
  "superseded s a \<longleftrightarrow>
     a < length (controllers s) \<and> (currentRequestController s = Some a \<or> controllers s ! a)"

text \<open>A stocks store in the middle of a session: the first page was loaded, then the next
  page, whose response names a next and a previous page, and then \<^verbatim>\<open>aa\<close> was typed
  into the ticker filter, whose timeout is still pending. And a runs store of
  \<^verbatim>\<open>listStore.js\<close> after its first page, whose response names a next page.\<close>

definition browsingStocks :: "nat store" where
  "browsingStocks =
     handleDebouncedFilter stocksList ''ticker__icontains'' ''aa''
       (loadFulfilled stocksList tickersURL 1
          \<lparr>results = Some [4, 5],
            nextRef = Some ''http://localhost/api/tickers?cursor=n3'',
            previousRef = Some ''http://localhost/api/tickers?cursor=p1''\<rparr>
          (nextPage stocksList
             (loadFulfilled stocksList tickersURL 0
                \<lparr>results = Some [1, 2, 3],
                  nextRef = Some ''http://localhost/api/tickers?cursor=n2'',
                  previousRef = None\<rparr>
                (loadCall stocksList None stocksInit))))"

definition browsingRuns :: "nat store" where
  "browsingRuns =
     plainFulfilled runsListPlain tickersURL
       \<lparr>results = Some [1, 2],
         nextRef = Some ''http://localhost/api/tickers?cursor=n2'',
         previousRef = None\<rparr>
       (plainCall runsListPlain None runsInit)"





section \<open>Properties\<close>

subsection \<open>Strings and objects\<close>

lemma dropWhile_all: "(\<forall>x \<in> set (dropWhile P xs). P x) \<longleftrightarrow> (\<forall>x \<in> set xs. P x)"
  by (induction xs) auto

lemma trim_empty_iff: "trim s = [] \<longleftrightarrow> (\<forall>c \<in> set s. isWhitespace c)"
  by (simp add: trim_def dropWhile_all)

lemma objGet_Nil: "objGet [] k = None"
  by (simp add: objGet_def)

lemma objGet_objSet: "objGet (objSet ob k v) k' = (if k' = k then Some v else objGet ob k')"
  by (induction ob) (auto simp: objGet_def)

lemma objSet_objSet: "objSet (objSet ob k v) k v' = objSet ob k v'"
  by (induction ob) auto

lemma objGet_keys: "objGet ob k \<noteq> None \<longleftrightarrow> k \<in> set (objKeys ob)"
  by (induction ob) (auto simp: objGet_def objKeys_def)

text \<open>What the loop over the keys leaves under each key.\<close>

lemma fold_active:
  "objGet (fold (\<lambda>key af. case objGet fs key of
                       None \<Rightarrow> af
                     | Some v \<Rightarrow> (case norm key v of None \<Rightarrow> af | Some t \<Rightarrow> objSet af key t)) ks af) k
   = (if k \<in> set ks then (case objGet fs k of None \<Rightarrow> objGet af k
         | Some v \<Rightarrow> (case norm k v of None \<Rightarrow> objGet af k | Some t \<Rightarrow> Some t)) else objGet af k)"
  by (induction ks arbitrary: af) (auto simp: objGet_objSet split: option.splits)

lemma objGet_buildActive:
  "objGet (buildActive norm fs) k = (case objGet fs k of None \<Rightarrow> None | Some v \<Rightarrow> norm k v)"
proof (cases "objGet fs k")
  case None
  then have "k \<notin> set (objKeys fs)" using objGet_keys[of fs k] by simp
  then show ?thesis using None by (simp add: buildActive_def fold_active objGet_Nil)
next
  case (Some v)
  then have "k \<in> set (objKeys fs)" using objGet_keys[of fs k] by simp
  then show ?thesis using Some
    by (simp add: buildActive_def fold_active objGet_Nil split: option.splits)
qed

subsection \<open>Cursor extraction\<close>

lemma extractCursor_Inr:
  "extractCursor newURL u =
     Inr (case newURL u of Inl e \<Rightarrow> None | Inr urlObj \<Rightarrow> map_of (searchParams urlObj) ''cursor'')"
  by (simp add: extractCursor_def extractCursorTry_def split: sum.splits)

lemma cursorOf_Inr: "\<exists>c. cursorOf newURL r = Inr c"
  by (simp add: cursorOf_def extractCursor_Inr split: option.splits)

lemma error_finish: "error (finish w) = error w"
  by (simp add: finish_def split: option.splits)

lemma error_loadFulfilled: "error (loadFulfilled cfg newURL sig resp w) = error w"
proof -
  obtain n where n: "cursorOf newURL (nextRef resp) = Inr n" using cursorOf_Inr by blast
  obtain p where p: "cursorOf newURL (previousRef resp) = Inr p" using cursorOf_Inr by blast
  show ?thesis by (simp add: loadFulfilled_def n p error_finish Let_def)
qed

lemma error_plainFulfilled: "error (plainFulfilled cfg newURL resp w) = error w"
proof -
  obtain n where n: "cursorOf newURL (nextRef resp) = Inr n" using cursorOf_Inr by blast
  obtain p where p: "cursorOf newURL (previousRef resp) = Inr p" using cursorOf_Inr by blast
  show ?thesis by (simp add: plainFulfilled_def n p Let_def)
qed

text \<open>Claim C9. Whatever the platform's URL constructor does with the reference, throw
  included, \<^verbatim>\<open>extractCursor\<close> returns: the value of the \<^verbatim>\<open>cursor\<close> parameter
  when the reference parses and has one, null when it does not parse or has none. So the
  continuation of a load never reaches its \<^verbatim>\<open>catch\<close> block because of a reference:
  a fulfilled load leaves the error field as it was, in the stores with request tracking
  and in those without.\<close>

theorem extractCursor_total:
  "extractCursor newURL u =
     Inr (case newURL u of Inl e \<Rightarrow> None | Inr urlObj \<Rightarrow> map_of (searchParams urlObj) ''cursor'')
   \<and> error (loadFulfilled cfg newURL sig resp w) = error w
   \<and> error (plainFulfilled cfg newURL resp w) = error w"
  by (simp add: extractCursor_Inr error_loadFulfilled error_plainFulfilled)

subsection \<open>Paging without a cursor\<close>

text \<open>Claim C10. \<^verbatim>\<open>nextPage\<close> with no next cursor and \<^verbatim>\<open>previousPage\<close> with no
  previous cursor return the store as it was: no call to the API store is added and no
  field changes, in the stores with request tracking and in those without.\<close>

theorem page_without_cursor:
  "(nextCursor w = None \<longrightarrow> nextPage cfg w = w \<and> plainNextPage cfg w = w) \<and>
   (previousCursor w = None \<longrightarrow> previousPage cfg w = w \<and> plainPreviousPage cfg w = w)"
  by (simp add: nextPage_def plainNextPage_def previousPage_def plainPreviousPage_def truthy_def)

theorem page_without_cursor_witness:
  "nextCursor stocksInit = None \<and> previousCursor stocksInit = None \<and>
   nextPage stocksList stocksInit = stocksInit \<and> plainNextPage stocksList stocksInit = stocksInit \<and>
   previousPage stocksList stocksInit = stocksInit \<and>
   plainPreviousPage stocksList stocksInit = stocksInit"
  using page_without_cursor [of stocksInit stocksList] by (simp add: stocksInit_def)

subsection \<open>What a call and its continuations change\<close>

lemma loadCall_requests:
  "apiAvailable w \<Longrightarrow> requests (loadCall cfg cursor w) =
     requests w @ [\<lparr>reqPageSize = pageSize w, reqCursor = cursor, reqFilters = activeFilters cfg w\<rparr>]"
  by (simp add: loadCall_def Let_def newController_def abort_def activeFilters_def
           split: option.splits)

lemma loadCall_cursors:
  "nextCursor w = None \<Longrightarrow> previousCursor w = None \<Longrightarrow>
   nextCursor (loadCall cfg c w) = None \<and> previousCursor (loadCall cfg c w) = None"
  by (simp add: loadCall_def Let_def newController_def abort_def caught_def finish_def aborted_def
           split: option.splits)

lemma loadCall_timers: "timers (loadCall cfg c w) = timers w" "clock (loadCall cfg c w) = clock w"
  by (simp_all add: loadCall_def Let_def newController_def abort_def caught_def finish_def
                    aborted_def split: option.splits)

lemma loadCall_controllers:
  "controllers (loadCall cfg c w) =
     (case currentRequestController w of
        None \<Rightarrow> controllers w
      | Some k \<Rightarrow> (controllers w)[k := True]) @ [False]"
  "currentRequestController (loadCall cfg c w) = Some (length (controllers w))"
  by (simp_all add: loadCall_def Let_def newController_def abort_def caught_def finish_def
                    aborted_def split: option.splits)

lemma loadCall_page: "apiAvailable w \<Longrightarrow> samePage w (loadCall cfg c w)"
  by (simp add: samePage_def loadCall_def Let_def newController_def abort_def split: option.splits)

lemma plainCall_requests:
  "apiAvailable w \<Longrightarrow> requests (plainCall cfg cursor w) =
     requests w @ [\<lparr>reqPageSize = pageSize w, reqCursor = cursor, reqFilters = activeFilters cfg w\<rparr>]"
  by (simp add: plainCall_def Let_def activeFilters_def)

lemma plainCall_cursors:
  "nextCursor w = None \<Longrightarrow> previousCursor w = None \<Longrightarrow>
   nextCursor (plainCall cfg c w) = None \<and> previousCursor (plainCall cfg c w) = None"
  by (simp add: plainCall_def Let_def plainCaught_def)

lemma finish_fields:
  "items (finish w) = items w" "nextCursor (finish w) = nextCursor w"
  "previousCursor (finish w) = previousCursor w" "controllers (finish w) = controllers w"
  "currentRequestController (finish w) = currentRequestController w"
  "requests (finish w) = requests w"
  by (simp_all add: finish_def split: option.splits)

lemma caught_controllers: "controllers (caught cfg e w) = controllers w"
  by (simp add: caught_def finish_fields)

lemma loadFulfilled_controllers:
  "controllers (loadFulfilled cfg newURL sig resp w) = controllers w"
  "currentRequestController (loadFulfilled cfg newURL sig resp w) = currentRequestController w"
proof -
  obtain n where n: "cursorOf newURL (nextRef resp) = Inr n" using cursorOf_Inr by blast
  obtain p where p: "cursorOf newURL (previousRef resp) = Inr p" using cursorOf_Inr by blast
  show "controllers (loadFulfilled cfg newURL sig resp w) = controllers w"
    "currentRequestController (loadFulfilled cfg newURL sig resp w) = currentRequestController w"
    by (simp_all add: loadFulfilled_def n p finish_fields Let_def)
qed

text \<open>The continuation of a call whose signal is aborted commits nothing; the one whose
  signal is not aborted commits its response.\<close>

lemma loadFulfilled_stale: "aborted w sig \<Longrightarrow> samePage w (loadFulfilled cfg newURL sig resp w)"
  by (simp add: loadFulfilled_def samePage_def finish_fields)

lemma loadFulfilled_current:
  assumes "\<not> aborted w sig"
  shows "showsPage newURL resp (loadFulfilled cfg newURL sig resp w)"
proof -
  obtain n where n: "cursorOf newURL (nextRef resp) = Inr n" using cursorOf_Inr by blast
  obtain p where p: "cursorOf newURL (previousRef resp) = Inr p" using cursorOf_Inr by blast
  show ?thesis using assms by (simp add: loadFulfilled_def showsPage_def n p finish_fields Let_def)
qed

lemma samePage_showsPage: "showsPage newURL r w \<Longrightarrow> samePage w w' \<Longrightarrow> showsPage newURL r w'"
  by (simp add: showsPage_def samePage_def)

lemma two_calls:
  "signalOf (loadCall cfg cA w) = length (controllers w)"
  "signalOf (loadCall cfg cB (loadCall cfg cA w)) = Suc (length (controllers w))"
  "aborted (loadCall cfg cB (loadCall cfg cA w)) (signalOf (loadCall cfg cA w))"
  "\<not> aborted (loadCall cfg cB (loadCall cfg cA w)) (signalOf (loadCall cfg cB (loadCall cfg cA w)))"
  by (simp_all add: signalOf_def loadCall_controllers aborted_def nth_append split: option.splits)

subsection \<open>The debounce timers leave the rest of the store alone\<close>

lemma cancelTimer_fields:
  "requests (cancelTimer k w) = requests w" "pageSize (cancelTimer k w) = pageSize w"
  "utcOffset (cancelTimer k w) = utcOffset w" "apiAvailable (cancelTimer k w) = apiAvailable w"
  "filters (cancelTimer k w) = filters w" "clock (cancelTimer k w) = clock w"
  "debounceDelay (cancelTimer k w) = debounceDelay w"
  "timerCount (cancelTimer k w) = timerCount w"
  "controllers (cancelTimer k w) = controllers w"
  "error (cancelTimer k w) = error w"
  by (simp_all add: cancelTimer_def clearTimeout_def split: option.splits)

lemma fold_cancelTimer_fields:
  "requests (fold cancelTimer ks w) = requests w" "pageSize (fold cancelTimer ks w) = pageSize w"
  "utcOffset (fold cancelTimer ks w) = utcOffset w"
  "apiAvailable (fold cancelTimer ks w) = apiAvailable w"
  "controllers (fold cancelTimer ks w) = controllers w"
  by (induction ks arbitrary: w) (simp_all add: cancelTimer_fields)

lemma set_timers_cancelTimer: "set (timers (cancelTimer k w)) \<subseteq> set (timers w)"
  by (auto simp: cancelTimer_def clearTimeout_def split: option.splits)

subsection \<open>An aborted signal stays aborted\<close>

text \<open>Loading the exchanges touches neither the controllers nor the list.\<close>

lemma exchanges_frame:
  "controllers (loadExchangesCall w) = controllers w"
  "currentRequestController (loadExchangesCall w) = currentRequestController w"
  "apiAvailable (loadExchangesCall w) = apiAvailable w"
  "controllers (loadExchangesFulfilled resp w) = controllers w"
  "currentRequestController (loadExchangesFulfilled resp w) = currentRequestController w"
  "apiAvailable (loadExchangesFulfilled resp w) = apiAvailable w"
  "controllers (loadExchangesRejected e w) = controllers w"
  "currentRequestController (loadExchangesRejected e w) = currentRequestController w"
  "apiAvailable (loadExchangesRejected e w) = apiAvailable w"
  by (simp_all add: loadExchangesCall_def loadExchangesFulfilled_def loadExchangesRejected_def
                    exchangesCaught_def Let_def)

lemma flag_stays: "a < length xs \<Longrightarrow> xs ! a \<Longrightarrow> xs[k := True] ! a"
  by (cases "k = a") simp_all

lemma aborted_loadCall: "aborted w a \<Longrightarrow> aborted (loadCall cfg c w) a"
  by (cases "currentRequestController w")
     (auto simp: aborted_def loadCall_controllers nth_append flag_stays)

lemma aborted_timerFired: "aborted w a \<Longrightarrow> aborted (timerFired cfg k w) a"
  using aborted_loadCall[of "resetCursors w" a cfg None]
  by (simp add: timerFired_def Let_def aborted_def resetCursors_def)

lemma aborted_fold_timerFired:
  "aborted w a \<Longrightarrow> aborted (fold (\<lambda>(i, key, t). timerFired cfg key) ts w) a"
  by (induction ts arbitrary: w) (auto simp: aborted_timerFired)

lemma aborted_step:
  assumes "aborted w a"
  shows "aborted (step cfg newURL e w) a"
proof (cases e)
  case (Load c)
  then show ?thesis using assms by (simp add: aborted_loadCall)
next
  case ApplyFilters
  then show ?thesis
    using assms aborted_loadCall[of "resetCursors w" a cfg None]
    by (simp add: applyFilters_def aborted_def resetCursors_def)
next
  case ClearFilters
  let ?w = "resetCursors ((fold cancelTimer (objKeys (debounceTimers w)) w)
                           \<lparr>filters := clearedFilters cfg\<rparr>)"
  have "aborted ?w a"
    using assms by (simp add: aborted_def resetCursors_def fold_cancelTimer_fields)
  then show ?thesis
    using ClearFilters by (simp add: clearFilters_def applyFilters_def aborted_loadCall)
next
  case NextPage
  then show ?thesis using assms by (simp add: nextPage_def aborted_loadCall)
next
  case PreviousPage
  then show ?thesis using assms by (simp add: previousPage_def aborted_loadCall)
next
  case (Debounced k v)
  let ?w2 = "(cancelTimer k w)\<lparr>filters := objSet (filters (cancelTimer k w)) k v\<rparr>"
  have 1: "aborted ?w2 a" using assms by (simp add: aborted_def cancelTimer_fields)
  then have "aborted (resetCursors ?w2) a" by (simp add: aborted_def resetCursors_def)
  then have 2: "aborted (loadCall cfg None (resetCursors ?w2)) a" by (rule aborted_loadCall)
  show ?thesis using Debounced 1 2 by (simp add: handleDebouncedFilter_def Let_def aborted_def)
next
  case (Elapse d)
  have "aborted (w\<lparr>clock := clock w + d,
                   timers := filter (\<lambda>(i, key, t). \<not> t \<le> clock w + d) (timers w)\<rparr>) a"
    using assms by (simp add: aborted_def)
  then show ?thesis using Elapse by (simp add: elapse_def Let_def aborted_fold_timerFired)
next
  case (Fulfilled sig resp)
  then show ?thesis using assms by (simp add: aborted_def loadFulfilled_controllers)
next
  case (Rejected err)
  then show ?thesis using assms by (simp add: aborted_def loadRejected_def caught_controllers)
next
  case LoadExchanges
  then show ?thesis using assms by (simp add: aborted_def exchanges_frame)
next
  case (ExchangesFulfilled resp)
  then show ?thesis using assms by (simp add: aborted_def exchanges_frame)
next
  case (ExchangesRejected err)
  then show ?thesis using assms by (simp add: aborted_def exchanges_frame)
qed


lemma aborted_run: "aborted w a \<Longrightarrow> aborted (run cfg newURL es w) a"
  unfolding run_def by (induction es arbitrary: w) (simp_all add: aborted_step)

text \<open>Once a call has been made, any later call aborts its signal, whatever happens in
  between; no event changes whether the API store is there.\<close>

lemma superseded_loadCall: "superseded s a \<Longrightarrow> aborted (loadCall cfg c s) a"
  by (cases "currentRequestController s")
     (auto simp: superseded_def aborted_def loadCall_controllers nth_append flag_stays)

lemma aborted_superseded: "aborted s a \<Longrightarrow> superseded s a"
  by (simp add: aborted_def superseded_def)

lemma cancelTimer_current: "currentRequestController (cancelTimer k w) = currentRequestController w"
  by (simp add: cancelTimer_def clearTimeout_def split: option.splits)

lemma fold_cancelTimer_current:
  "currentRequestController (fold cancelTimer ks w) = currentRequestController w"
  by (induction ks arbitrary: w) (simp_all add: cancelTimer_current)

lemma caught_current_controller: "currentRequestController (caught cfg e w) = currentRequestController w"
  by (simp add: caught_def finish_fields)

lemma superseded_timerFired: "superseded w a \<Longrightarrow> superseded (timerFired cfg k w) a"
proof -
  assume "superseded w a"
  then have "superseded (resetCursors w) a" by (simp add: superseded_def resetCursors_def)
  then have "aborted (loadCall cfg None (resetCursors w)) a" by (rule superseded_loadCall)
  then show ?thesis by (simp add: timerFired_def Let_def aborted_def superseded_def)
qed

lemma superseded_fold_timerFired:
  "superseded w a \<Longrightarrow> superseded (fold (\<lambda>(i, key, t). timerFired cfg key) ts w) a"
  by (induction ts arbitrary: w) (auto simp: superseded_timerFired)

lemma superseded_step:
  assumes "superseded w a"
  shows "superseded (step cfg newURL e w) a"
proof (cases e)
  case (Load c)
  then show ?thesis using assms by (simp add: superseded_loadCall aborted_superseded)
next
  case ApplyFilters
  have "superseded (resetCursors w) a" using assms by (simp add: superseded_def resetCursors_def)
  then show ?thesis using ApplyFilters
    by (simp add: applyFilters_def superseded_loadCall aborted_superseded)
next
  case ClearFilters
  let ?w = "resetCursors ((fold cancelTimer (objKeys (debounceTimers w)) w)
                           \<lparr>filters := clearedFilters cfg\<rparr>)"
  have "superseded ?w a"
    using assms by (simp add: superseded_def resetCursors_def fold_cancelTimer_fields fold_cancelTimer_current)
  then show ?thesis
    using ClearFilters by (simp add: clearFilters_def applyFilters_def superseded_loadCall aborted_superseded)
next
  case NextPage
  then show ?thesis using assms by (simp add: nextPage_def superseded_loadCall aborted_superseded)
next
  case PreviousPage
  then show ?thesis using assms by (simp add: previousPage_def superseded_loadCall aborted_superseded)
next
  case (Debounced k v)
  let ?w2 = "(cancelTimer k w)\<lparr>filters := objSet (filters (cancelTimer k w)) k v\<rparr>"
  have 1: "superseded ?w2 a" using assms by (simp add: superseded_def cancelTimer_fields cancelTimer_current)
  then have "superseded (resetCursors ?w2) a" by (simp add: superseded_def resetCursors_def)
  then have 2: "superseded (loadCall cfg None (resetCursors ?w2)) a"
    by (simp add: superseded_loadCall aborted_superseded)
  show ?thesis using Debounced 1 2 by (simp add: handleDebouncedFilter_def Let_def superseded_def)
next
  case (Elapse d)
  have "superseded (w\<lparr>clock := clock w + d,
                   timers := filter (\<lambda>(i, key, t). \<not> t \<le> clock w + d) (timers w)\<rparr>) a"
    using assms by (simp add: superseded_def)
  then show ?thesis using Elapse by (simp add: elapse_def Let_def superseded_fold_timerFired)
next
  case (Fulfilled sig resp)
  then show ?thesis using assms by (simp add: superseded_def loadFulfilled_controllers)
next
  case (Rejected err)
  then show ?thesis using assms
    by (simp add: superseded_def loadRejected_def caught_controllers caught_current_controller)
next
  case LoadExchanges
  then show ?thesis using assms by (simp add: superseded_def exchanges_frame)
next
  case (ExchangesFulfilled resp)
  then show ?thesis using assms by (simp add: superseded_def exchanges_frame)
next
  case (ExchangesRejected err)
  then show ?thesis using assms by (simp add: superseded_def exchanges_frame)
qed


lemma superseded_run: "superseded w a \<Longrightarrow> superseded (run cfg newURL es w) a"
  unfolding run_def by (induction es arbitrary: w) (simp_all add: superseded_step)

lemma loadCall_superseded: "superseded (loadCall cfg c w) (signalOf (loadCall cfg c w))"
  by (simp add: superseded_def signalOf_def loadCall_controllers split: option.splits)

lemma loadCall_not_aborted: "\<not> aborted (loadCall cfg c w) (signalOf (loadCall cfg c w))"
  by (simp add: aborted_def signalOf_def loadCall_controllers nth_append split: option.splits)

lemma api_finish: "apiAvailable (finish w) = apiAvailable w"
  by (simp add: finish_def split: option.splits)

lemma api_caught: "apiAvailable (caught cfg e w) = apiAvailable w"
  by (simp add: caught_def api_finish)

lemma api_loadCall: "apiAvailable (loadCall cfg c w) = apiAvailable w"
  by (cases "currentRequestController w")
     (simp_all add: loadCall_def Let_def newController_def abort_def api_caught)

lemma api_loadFulfilled: "apiAvailable (loadFulfilled cfg newURL sig resp w) = apiAvailable w"
proof -
  obtain n where n: "cursorOf newURL (nextRef resp) = Inr n" using cursorOf_Inr by blast
  obtain p where p: "cursorOf newURL (previousRef resp) = Inr p" using cursorOf_Inr by blast
  show ?thesis by (simp add: loadFulfilled_def n p api_finish Let_def)
qed

lemma api_timerFired: "apiAvailable (timerFired cfg k w) = apiAvailable w"
  by (simp add: timerFired_def Let_def api_loadCall resetCursors_def)

lemma api_fold_timerFired:
  "apiAvailable (fold (\<lambda>(i, key, t). timerFired cfg key) ts w) = apiAvailable w"
proof (induction ts arbitrary: w)
  case Nil
  show ?case by simp
next
  case (Cons x ts)
  obtain i key t where x: "x = (i, key, t)" by (cases x)
  have "apiAvailable (fold (\<lambda>(i, key, t). timerFired cfg key) (x # ts) w) =
        apiAvailable (fold (\<lambda>(i, key, t). timerFired cfg key) ts (timerFired cfg key w))"
    by (simp add: x)
  also have "\<dots> = apiAvailable (timerFired cfg key w)" by (rule Cons.IH)
  also have "\<dots> = apiAvailable w" by (rule api_timerFired)
  finally show ?case .
qed

lemma api_debounced: "apiAvailable (handleDebouncedFilter cfg k v w) = apiAvailable w"
proof (cases "trim v = []")
  case True
  then show ?thesis
    by (simp add: handleDebouncedFilter_def Let_def api_loadCall resetCursors_def cancelTimer_fields)
next
  case False
  then show ?thesis
    by (simp add: handleDebouncedFilter_def Let_def cancelTimer_fields)
qed

lemma api_elapse: "apiAvailable (elapse cfg d w) = apiAvailable w"
  by (simp add: elapse_def Let_def api_fold_timerFired)

lemma api_clearFilters: "apiAvailable (clearFilters cfg w) = apiAvailable w"
  by (simp add: clearFilters_def applyFilters_def api_loadCall resetCursors_def
                fold_cancelTimer_fields)

lemma api_step: "apiAvailable (step cfg newURL e w) = apiAvailable w"
proof (cases e)
  case (Load c) then show ?thesis by (simp add: api_loadCall)
next
  case ApplyFilters then show ?thesis by (simp add: applyFilters_def api_loadCall resetCursors_def)
next
  case ClearFilters then show ?thesis by (simp add: api_clearFilters)
next
  case NextPage then show ?thesis by (simp add: nextPage_def api_loadCall)
next
  case PreviousPage then show ?thesis by (simp add: previousPage_def api_loadCall)
next
  case (Debounced k v) then show ?thesis by (simp add: api_debounced)
next
  case (Elapse d) then show ?thesis by (simp add: api_elapse)
next
  case (Fulfilled sig resp) then show ?thesis by (simp add: api_loadFulfilled)
next
  case (Rejected err) then show ?thesis by (simp add: loadRejected_def api_caught)
next
  case LoadExchanges then show ?thesis by (simp add: exchanges_frame)
next
  case (ExchangesFulfilled resp) then show ?thesis by (simp add: exchanges_frame)
next
  case (ExchangesRejected err) then show ?thesis by (simp add: exchanges_frame)
qed


lemma api_run: "apiAvailable (run cfg newURL es w) = apiAvailable w"
  unfolding run_def by (induction es arbitrary: w) (simp_all add: api_step)

lemmas evals =
  loadCall_def loadFulfilled_def loadRejected_def caught_def finish_def aborted_def abort_def
  newController_def plainCall_def plainFulfilled_def plainRejected_def plainCaught_def
  cursorOf_def messageOr_def activeFilters_def Let_def

subsection \<open>Two loads in flight\<close>

text \<open>Claim C1, as stated, at the runs store of \<^verbatim>\<open>listStore.js\<close>, which has no
  request tracking: load A is called, load B is called, B is fulfilled with the page
  \<open>[2]\<close>, then A is fulfilled with the page \<open>[1]\<close>. The store ends up showing A's page,
  not B's.\<close>

theorem untracked_late_response_overwrites:
  "\<not> showsPage tickersURL \<lparr>results = Some [2], nextRef = None, previousRef = None\<rparr>
      (plainFulfilled runsListPlain tickersURL
         \<lparr>results = Some [1], nextRef = None, previousRef = None\<rparr>
        (plainFulfilled runsListPlain tickersURL
           \<lparr>results = Some [2], nextRef = None, previousRef = None\<rparr>
          (plainCall runsListPlain None (plainCall runsListPlain None runsInit))))"
  by (simp add: showsPage_def evals runsInit_def)

text \<open>Claim C1, amended: in a store with request tracking, let load A be called and,
  after any events whatsoever, load B, both reaching the API store. When B is fulfilled
  with no newer call made, the store shows B's page, whether A was fulfilled just before
  or not, and it keeps showing B's page when A is fulfilled afterwards. From the moment B
  is called, and after any further events, A's fulfilment leaves items and cursors as they
  are.\<close>

theorem latest_load_wins:
  fixes w :: "'i store"
  assumes "apiAvailable w"
  shows "let sA = loadCall cfg cA w; a = signalOf sA;
             sB = loadCall cfg cB (run cfg newURL es sA); b = signalOf sB
         in requests sA =
              requests w @
                [\<lparr>reqPageSize = pageSize w, reqCursor = cA, reqFilters = activeFilters cfg w\<rparr>] \<and>
            requests sB =
              requests (run cfg newURL es sA) @
                [\<lparr>reqPageSize = pageSize (run cfg newURL es sA), reqCursor = cB,
                  reqFilters = activeFilters cfg (run cfg newURL es sA)\<rparr>] \<and>
            showsPage newURL rB (loadFulfilled cfg newURL b rB sB) \<and>
            showsPage newURL rB
              (loadFulfilled cfg newURL a rA (loadFulfilled cfg newURL b rB sB)) \<and>
            samePage sB (loadFulfilled cfg newURL a rA sB) \<and>
            showsPage newURL rB
              (loadFulfilled cfg newURL b rB (loadFulfilled cfg newURL a rA sB)) \<and>
            (\<forall>es'. samePage (run cfg newURL es' sB)
                            (loadFulfilled cfg newURL a rA (run cfg newURL es' sB)))"
proof -
  let ?sA = "loadCall cfg cA w"
  let ?a = "signalOf ?sA"
  let ?sM = "run cfg newURL es ?sA"
  let ?sB = "loadCall cfg cB ?sM"
  let ?b = "signalOf ?sB"
  have rA: "requests ?sA =
              requests w @
                [\<lparr>reqPageSize = pageSize w, reqCursor = cA, reqFilters = activeFilters cfg w\<rparr>]"
    using assms by (rule loadCall_requests)
  have "apiAvailable ?sM" using assms by (simp add: api_run api_loadCall)
  then have rB: "requests ?sB =
              requests ?sM @
                [\<lparr>reqPageSize = pageSize ?sM, reqCursor = cB, reqFilters = activeFilters cfg ?sM\<rparr>]"
    by (rule loadCall_requests)
  have "superseded ?sA ?a" by (rule loadCall_superseded)
  then have "superseded ?sM ?a" by (rule superseded_run)
  then have ab: "aborted ?sB ?a" by (rule superseded_loadCall)
  have nb: "\<not> aborted ?sB ?b" by (rule loadCall_not_aborted)
  have 1: "showsPage newURL rB (loadFulfilled cfg newURL ?b rB ?sB)"
    using nb by (rule loadFulfilled_current)
  have "aborted (loadFulfilled cfg newURL ?b rB ?sB) ?a"
    using ab by (simp add: aborted_def loadFulfilled_controllers)
  then have "samePage (loadFulfilled cfg newURL ?b rB ?sB)
               (loadFulfilled cfg newURL ?a rA (loadFulfilled cfg newURL ?b rB ?sB))"
    by (rule loadFulfilled_stale)
  with 1 have 2: "showsPage newURL rB
                  (loadFulfilled cfg newURL ?a rA (loadFulfilled cfg newURL ?b rB ?sB))"
    by (rule samePage_showsPage)
  have 3: "samePage ?sB (loadFulfilled cfg newURL ?a rA ?sB)"
    using ab by (rule loadFulfilled_stale)
  have "\<not> aborted (loadFulfilled cfg newURL ?a rA ?sB) ?b"
    using nb by (simp add: aborted_def loadFulfilled_controllers)
  then have 4: "showsPage newURL rB
                  (loadFulfilled cfg newURL ?b rB (loadFulfilled cfg newURL ?a rA ?sB))"
    by (rule loadFulfilled_current)
  have 5: "\<forall>es'. samePage (run cfg newURL es' ?sB)
                         (loadFulfilled cfg newURL ?a rA (run cfg newURL es' ?sB))"
  proof
    fix es'
    have "aborted (run cfg newURL es' ?sB) ?a" using ab by (rule aborted_run)
    then show "samePage (run cfg newURL es' ?sB)
                 (loadFulfilled cfg newURL ?a rA (run cfg newURL es' ?sB))"
      by (rule loadFulfilled_stale)
  qed
  show ?thesis
    unfolding Let_def using rA rB 1 2 3 4 5 by (intro conjI) assumption+
qed

theorem latest_load_wins_witness:
  "apiAvailable stocksInit \<and>
   showsPage tickersURL \<lparr>results = Some [2], nextRef = None, previousRef = None\<rparr>
     (loadFulfilled stocksList tickersURL 0
        \<lparr>results = Some [1], nextRef = None, previousRef = None\<rparr>
        (loadFulfilled stocksList tickersURL 1
           \<lparr>results = Some [2], nextRef = None, previousRef = None\<rparr>
           (loadCall stocksList None (loadCall stocksList None stocksInit))))"
proof -
  have av: "apiAvailable stocksInit" by (simp add: stocksInit_def)
  have cs: "controllers stocksInit = []" by (simp add: stocksInit_def)
  have sa: "signalOf (loadCall stocksList None stocksInit) = 0"
    by (simp add: two_calls cs)
  have sb: "signalOf (loadCall stocksList None (loadCall stocksList None stocksInit)) = 1"
    by (simp add: two_calls(2) cs)
  have r: "run stocksList tickersURL [] (loadCall stocksList None stocksInit) =
           (loadCall stocksList None stocksInit :: nat store)"
    by (simp add: run_def)
  have "showsPage tickersURL \<lparr>results = Some [2], nextRef = None, previousRef = None\<rparr>
     (loadFulfilled stocksList tickersURL 0
        \<lparr>results = Some [1], nextRef = None, previousRef = None\<rparr>
        (loadFulfilled stocksList tickersURL 1
           \<lparr>results = Some [2], nextRef = None, previousRef = None\<rparr>
           (loadCall stocksList None (loadCall stocksList None stocksInit))))"
    using latest_load_wins
          [OF av, where cfg = stocksList and cA = None and cB = None and es = "[]"
             and newURL = tickersURL
             and rA = "\<lparr>results = Some [1], nextRef = None, previousRef = None\<rparr>"
             and rB = "\<lparr>results = Some [2], nextRef = None, previousRef = None\<rparr>"]
    unfolding Let_def r sa sb by (elim conjE)
  then show ?thesis using av by (intro conjI)
qed

subsection \<open>A stale load that fails\<close>

text \<open>Claim C2, at the stocks store: load A is called, load B is called, B is fulfilled
  with the page \<open>[7]\<close> and a next cursor, then A's promise is rejected with an ordinary
  error. The \<^verbatim>\<open>catch\<close> block tests the controller the store holds now, which is
  B's and is not aborted, so A's failure empties the list, drops the cursor and sets the
  error message. Also, while B is still in flight, A's fulfilment clears
  \<^verbatim>\<open>loading\<close>.\<close>

theorem stale_rejection_surfaces:
  "let sB = loadCall stocksList None (loadCall stocksList None stocksInit);
       sB' = loadFulfilled stocksList tickersURL 1
               \<lparr>results = Some [7], nextRef = Some ''http://localhost/api/tickers?cursor=n2'',
                 previousRef = None\<rparr> sB;
       sA' = loadRejected stocksList
               \<lparr>errName = ''Error'', errMessage = ''Request failed with status 500''\<rparr> sB'
   in signalOf sB = 1 \<and> aborted sB 0 \<and>
      items sB' = [7] \<and> nextCursor sB' = Some ''n2'' \<and> error sB' = None \<and>
      items sA' = [] \<and> nextCursor sA' = None \<and>
      error sA' = Some ''Request failed with status 500'' \<and>
      loading sB \<and>
      \<not> loading (loadFulfilled stocksList tickersURL 0
                   \<lparr>results = Some [3], nextRef = None, previousRef = None\<rparr> sB)"
  by (simp add: evals stocksInit_def stocksList_def signalOf_def tickersURL_def extractCursor_Inr)

subsection \<open>Changing the filters resets the cursors\<close>

text \<open>Claim C3. \<^verbatim>\<open>applyFilters\<close> and \<^verbatim>\<open>clearFilters\<close> are a load with no
  cursor started from a state in which both cursors are already absent and to which no
  call to the API store has been added yet; both cursors are still absent when the call
  reaches its \<^verbatim>\<open>await\<close>; and when the API store is there, exactly one request is
  added, without a cursor. This holds in the stores with request tracking and in those
  without.\<close>

theorem filter_change_resets_cursors:
  "(\<exists>w0. cursorsAbsent w0 \<and> requests w0 = requests w \<and>
         applyFilters cfg w = loadCall cfg None w0) \<and>
   (\<exists>w0. cursorsAbsent w0 \<and> requests w0 = requests w \<and>
         clearFilters cfg w = loadCall cfg None w0) \<and>
   (\<exists>w0. cursorsAbsent w0 \<and> requests w0 = requests w \<and>
         plainApplyFilters cfg w = plainCall cfg None w0) \<and>
   (\<exists>w0. cursorsAbsent w0 \<and> requests w0 = requests w \<and>
         plainClearFilters cfg w = plainCall cfg None w0) \<and>
   cursorsAbsent (applyFilters cfg w) \<and> cursorsAbsent (clearFilters cfg w) \<and>
   cursorsAbsent (plainApplyFilters cfg w) \<and> cursorsAbsent (plainClearFilters cfg w) \<and>
   (apiAvailable w \<longrightarrow>
      requests (applyFilters cfg w) =
        requests w @
          [\<lparr>reqPageSize = pageSize w, reqCursor = None, reqFilters = activeFilters cfg w\<rparr>] \<and>
      requests (clearFilters cfg w) =
        requests w @
          [\<lparr>reqPageSize = pageSize w, reqCursor = None,
            reqFilters = buildActive (normalise cfg (utcOffset w)) (clearedFilters cfg)\<rparr>] \<and>
      requests (plainApplyFilters cfg w) =
        requests w @
          [\<lparr>reqPageSize = pageSize w, reqCursor = None, reqFilters = activeFilters cfg w\<rparr>] \<and>
      requests (plainClearFilters cfg w) =
        requests w @
          [\<lparr>reqPageSize = pageSize w, reqCursor = None,
            reqFilters = buildActive (normalise cfg (utcOffset w)) (clearedFilters cfg)\<rparr>])"
proof -
  let ?a = "resetCursors w"
  let ?c = "resetCursors ((fold cancelTimer (objKeys (debounceTimers w)) w)
                           \<lparr>filters := clearedFilters cfg\<rparr>)"
  let ?p = "resetCursors (w\<lparr>filters := clearedFilters cfg\<rparr>)"
  have a: "cursorsAbsent ?a" "requests ?a = requests w"
    "applyFilters cfg w = loadCall cfg None ?a" "plainApplyFilters cfg w = plainCall cfg None ?a"
    by (simp_all add: cursorsAbsent_def resetCursors_def applyFilters_def plainApplyFilters_def)
  have c: "cursorsAbsent ?c" "requests ?c = requests w" "clearFilters cfg w = loadCall cfg None ?c"
    by (simp_all add: cursorsAbsent_def resetCursors_def applyFilters_def clearFilters_def
                      fold_cancelTimer_fields)
  have p: "cursorsAbsent ?p" "requests ?p = requests w"
    "plainClearFilters cfg w = plainCall cfg None ?p"
    by (simp_all add: cursorsAbsent_def resetCursors_def plainApplyFilters_def
                      plainClearFilters_def)
  have 1: "cursorsAbsent (applyFilters cfg w)" "cursorsAbsent (plainApplyFilters cfg w)"
    using a loadCall_cursors[of ?a cfg None] plainCall_cursors[of ?a cfg None]
    by (simp_all add: cursorsAbsent_def)
  have 2: "cursorsAbsent (clearFilters cfg w)"
    using c loadCall_cursors[of ?c cfg None] by (simp add: cursorsAbsent_def)
  have 3: "cursorsAbsent (plainClearFilters cfg w)"
    using p plainCall_cursors[of ?p cfg None] by (simp add: cursorsAbsent_def)
  have 4: "apiAvailable w \<Longrightarrow> requests (applyFilters cfg w) =
        requests w @
          [\<lparr>reqPageSize = pageSize w, reqCursor = None, reqFilters = activeFilters cfg w\<rparr>]"
    by (simp add: a(3) loadCall_requests resetCursors_def activeFilters_def)
  have 5: "apiAvailable w \<Longrightarrow> requests (plainApplyFilters cfg w) =
        requests w @
          [\<lparr>reqPageSize = pageSize w, reqCursor = None, reqFilters = activeFilters cfg w\<rparr>]"
    by (simp add: a(4) plainCall_requests resetCursors_def activeFilters_def)
  have 6: "apiAvailable w \<Longrightarrow> requests (clearFilters cfg w) =
        requests w @
          [\<lparr>reqPageSize = pageSize w, reqCursor = None,
            reqFilters = buildActive (normalise cfg (utcOffset w)) (clearedFilters cfg)\<rparr>]"
    by (simp add: c(3) loadCall_requests resetCursors_def activeFilters_def
                  fold_cancelTimer_fields)
  have 7: "apiAvailable w \<Longrightarrow> requests (plainClearFilters cfg w) =
        requests w @
          [\<lparr>reqPageSize = pageSize w, reqCursor = None,
            reqFilters = buildActive (normalise cfg (utcOffset w)) (clearedFilters cfg)\<rparr>]"
    by (simp add: p(3) plainCall_requests resetCursors_def activeFilters_def)
  show ?thesis using a c p 1 2 3 4 5 6 7 by blast
qed

text \<open>The witness is a stocks store that shows the second page of an earlier load, with a
  next and a previous cursor, a non-blank filter and its debounce timeout pending, and a
  runs store of \<^verbatim>\<open>listStore.js\<close> that shows a page with a next cursor.\<close>

theorem filter_change_resets_cursors_witness:
  "apiAvailable (browsingStocks :: nat store) \<and>
   nextCursor browsingStocks = Some ''n3'' \<and> previousCursor browsingStocks = Some ''p1'' \<and>
   length (timers browsingStocks) = 1 \<and>
   cursorsAbsent (applyFilters stocksList browsingStocks) \<and>
   cursorsAbsent (clearFilters stocksList browsingStocks) \<and>
   requests (applyFilters stocksList browsingStocks) =
     requests browsingStocks @
       [\<lparr>reqPageSize = 50, reqCursor = None,
         reqFilters = [(''ticker__icontains'', TStr ''aa'')]\<rparr>] \<and>
   requests (clearFilters stocksList browsingStocks) =
     requests browsingStocks @ [\<lparr>reqPageSize = 50, reqCursor = None, reqFilters = []\<rparr>] \<and>
   apiAvailable (browsingRuns :: nat store) \<and> nextCursor browsingRuns = Some ''n2'' \<and>
   cursorsAbsent (plainApplyFilters runsListPlain browsingRuns) \<and>
   cursorsAbsent (plainClearFilters runsListPlain browsingRuns) \<and>
   requests (plainApplyFilters runsListPlain browsingRuns) =
     requests browsingRuns @ [\<lparr>reqPageSize = 50, reqCursor = None, reqFilters = []\<rparr>]"
proof -
  have s: "apiAvailable (browsingStocks :: nat store)"
    "nextCursor browsingStocks = Some ''n3''" "previousCursor browsingStocks = Some ''p1''"
    "length (timers browsingStocks) = 1" "pageSize browsingStocks = 50"
    "activeFilters stocksList browsingStocks = [(''ticker__icontains'', TStr ''aa'')]"
    "buildActive (normalise stocksList (utcOffset browsingStocks)) (clearedFilters stocksList) = []"
    by code_simp+
  have r: "apiAvailable (browsingRuns :: nat store)" "nextCursor browsingRuns = Some ''n2''"
    "pageSize browsingRuns = 50" "activeFilters runsListPlain browsingRuns = []"
    by code_simp+
  show ?thesis
    using s r
      filter_change_resets_cursors [of browsingStocks stocksList]
      filter_change_resets_cursors [of browsingRuns runsListPlain]
    by simp
qed

subsection \<open>Clearing a filter by typing\<close>

text \<open>Claim C5. When the value handed to the debounced handler trims to the empty string
  (the empty string or white space only), the handler returns with the request already
  made: one more call to the API store, without a cursor and with the filters as just
  updated; both cursors are absent; the clock has not moved and no timeout was added.\<close>

theorem blank_filter_loads_at_once:
  assumes "trim v = []" and "apiAvailable w"
  shows "requests (handleDebouncedFilter cfg key v w) =
           requests w @
             [\<lparr>reqPageSize = pageSize w, reqCursor = None,
               reqFilters = buildActive (normalise cfg (utcOffset w))
                                        (objSet (filters w) key v)\<rparr>] \<and>
         nextCursor (handleDebouncedFilter cfg key v w) = None \<and>
         previousCursor (handleDebouncedFilter cfg key v w) = None \<and>
         clock (handleDebouncedFilter cfg key v w) = clock w \<and>
         set (timers (handleDebouncedFilter cfg key v w)) \<subseteq> set (timers w)"
proof -
  let ?w2 = "resetCursors ((cancelTimer key w)
                            \<lparr>filters := objSet (filters (cancelTimer key w)) key v\<rparr>)"
  have h: "handleDebouncedFilter cfg key v w = loadCall cfg None ?w2"
    using assms(1) by (simp add: handleDebouncedFilter_def Let_def)
  have "apiAvailable ?w2" using assms(2) by (simp add: resetCursors_def cancelTimer_fields)
  then have r: "requests (loadCall cfg None ?w2) =
                  requests ?w2 @
                    [\<lparr>reqPageSize = pageSize ?w2, reqCursor = None,
                      reqFilters = activeFilters cfg ?w2\<rparr>]"
    by (rule loadCall_requests)
  have c: "nextCursor (loadCall cfg None ?w2) = None \<and>
           previousCursor (loadCall cfg None ?w2) = None"
    by (rule loadCall_cursors) (simp_all add: resetCursors_def)
  have t: "set (timers (loadCall cfg None ?w2)) \<subseteq> set (timers w)"
    using set_timers_cancelTimer[of key w] by (simp add: loadCall_timers resetCursors_def)
  show ?thesis
    using r c t
    by (simp add: h loadCall_timers resetCursors_def cancelTimer_fields activeFilters_def)
qed

theorem blank_filter_loads_at_once_witness:
  "trim ''  '' = [] \<and> apiAvailable stocksInit \<and>
   requests (handleDebouncedFilter stocksList ''ticker__icontains'' ''  '' stocksInit) =
     [\<lparr>reqPageSize = 50, reqCursor = None,
       reqFilters = buildActive (normalise stocksList 0)
                      (objSet (filters stocksInit) ''ticker__icontains'' ''  '')\<rparr>] \<and>
   nextCursor (handleDebouncedFilter stocksList ''ticker__icontains'' ''  '' stocksInit) = None \<and>
   previousCursor (handleDebouncedFilter stocksList ''ticker__icontains'' ''  '' stocksInit) = None"
proof -
  have tr: "trim ''  '' = []" by (simp add: trim_def isWhitespace_def)
  have av: "apiAvailable stocksInit" and rq: "requests stocksInit = []"
    and ps: "pageSize stocksInit = 50" and tz: "utcOffset stocksInit = 0"
    by (simp_all add: stocksInit_def)
  show ?thesis
    using tr av blank_filter_loads_at_once [OF tr av, of stocksList "''ticker__icontains''"]
    unfolding rq ps tz by simp
qed

subsection \<open>A failed load\<close>





































subsection \<open>Blank filters\<close>

text \<open>Claim C8, as stated, at the runs store of \<^verbatim>\<open>listStore.js\<close>: the raw value of
  \<^verbatim>\<open>is_terminal\<close> is a single space; the load hands
  \<^verbatim>\<open>is_terminal: false\<close> to the API store, which sends
  \<^verbatim>\<open>is_terminal=false\<close>.\<close>

theorem blank_boolean_filter_is_sent:
  "trim '' '' = [] \<and>
   objGet (filters (runsInit\<lparr>filters := objSet (filters runsInit) ''is_terminal'' '' ''\<rparr>))
          ''is_terminal'' = Some '' '' \<and>
   requests (plainCall runsListPlain None
              (runsInit\<lparr>filters := objSet (filters runsInit) ''is_terminal'' '' ''\<rparr>))
     = [\<lparr>reqPageSize = 50, reqCursor = None, reqFilters = [(''is_terminal'', TBool False)]\<rparr>] \<and>
   listRunsParams 50 None [(''is_terminal'', TBool False)]
     = [(''page_size'', ''50''), (''is_terminal'', ''false'')]"
  by code_simp

lemma stringFilter_cases:
  "stringFilter v = (if trim v = [] then None else Some (TStr (trim v)))"
  by (auto simp: stringFilter_def trim_def)

lemma booleanFilter_empty: "booleanFilter [] = None"
  by (simp add: booleanFilter_def)

lemma dateFilter_blank: "trim v = [] \<Longrightarrow> dateFilter conv v = None"
  by (simp add: dateFilter_def)

lemma norm_nonempty:
  "stringFilter v \<noteq> Some (TStr [])" "booleanFilter v \<noteq> Some (TStr [])"
  "dateFilter conv v \<noteq> Some (TStr [])"
  by (auto simp: stringFilter_def booleanFilter_def dateFilter_def split: option.splits)

lemma norms_nonempty:
  "stocksNorm key v \<noteq> Some (TStr [])" "runsNorm conv key v \<noteq> Some (TStr [])"
  "bulkNorm conv key v \<noteq> Some (TStr [])"
  by (simp_all add: stocksNorm_def runsNorm_def bulkNorm_def norm_nonempty)

lemma active_nonempty:
  assumes "\<forall>key v. norm key v \<noteq> Some (TStr [])"
  shows "objGet (buildActive norm fs) key \<noteq> Some (TStr [])"
  using assms by (simp add: objGet_buildActive split: option.splits)

lemma toParam_empty: "[] = toParam t \<longleftrightarrow> t = TStr []"
  by (cases t) auto

lemma filterParams_nonempty:
  assumes "\<forall>key. objGet af key \<noteq> Some (TStr [])"
  shows "(k, []) \<notin> set (filterParams af sk bk)"
  using assms
  by (auto simp: filterParams_def stringParam_def booleanParam_def toParam_empty
           split: option.splits if_splits)


text \<open>Claim C8, amended: a filter key whose raw value is the empty string is absent from
  the filters handed to the API store, in every store; so is a key whose raw value is
  white space only, unless it is a boolean key of a runs store
  (\<^verbatim>\<open>is_terminal\<close>, \<^verbatim>\<open>is_in_progress\<close>; \<^verbatim>\<open>is_completed\<close>,
  \<^verbatim>\<open>has_errors\<close>), whose test is \<^verbatim>\<open>value !== ''\<close> without trimming. No
  filter is handed over as the empty string and no filter parameter of the query has the
  value \<^verbatim>\<open>""\<close>, whatever keys the API store reads. A plain string filter that is
  handed over is the trimmed raw value.\<close>

theorem blank_filters_not_sent:
  "(objGet fs key = Some v \<and> trim v = [] \<longrightarrow>
      objGet (buildActive stocksNorm fs) key = None \<and>
      (key \<notin> set [''is_terminal'', ''is_in_progress''] \<or> v = [] \<longrightarrow>
         objGet (buildActive (runsNorm conv) fs) key = None) \<and>
      (key \<notin> set [''is_completed'', ''has_errors''] \<or> v = [] \<longrightarrow>
         objGet (buildActive (bulkNorm conv) fs) key = None)) \<and>
   (\<forall>norm \<in> {stocksNorm, runsNorm conv, bulkNorm conv}.
      objGet (buildActive norm fs) key \<noteq> Some (TStr []) \<and>
      (k, []) \<notin> set (filterParams (buildActive norm fs) stringKeys booleanKeys)) \<and>
   (objGet (buildActive stocksNorm fs) key = Some t \<longrightarrow>
      (\<exists>raw. objGet fs key = Some raw \<and> t = TStr (trim raw))) \<and>
   (key \<notin> set [''is_terminal'', ''is_in_progress'', ''created_after'', ''created_before''] \<and>
    objGet (buildActive (runsNorm conv) fs) key = Some t \<longrightarrow>
      (\<exists>raw. objGet fs key = Some raw \<and> t = TStr (trim raw))) \<and>
   (key \<notin> set [''is_completed'', ''has_errors'', ''created_after'', ''created_before'',
                ''started_at_after'', ''started_at_before'', ''completed_at_after'',
                ''completed_at_before''] \<and>
    objGet (buildActive (bulkNorm conv) fs) key = Some t \<longrightarrow>
      (\<exists>raw. objGet fs key = Some raw \<and> t = TStr (trim raw)))"
proof -
  have blank: "objGet (buildActive stocksNorm fs) key = None \<and>
      (key \<notin> set [''is_terminal'', ''is_in_progress''] \<or> v = [] \<longrightarrow>
         objGet (buildActive (runsNorm conv) fs) key = None) \<and>
      (key \<notin> set [''is_completed'', ''has_errors''] \<or> v = [] \<longrightarrow>
         objGet (buildActive (bulkNorm conv) fs) key = None)"
    if "objGet fs key = Some v" "trim v = []"
    using that
    by (auto simp: objGet_buildActive stocksNorm_def runsNorm_def bulkNorm_def
                   stringFilter_cases dateFilter_blank booleanFilter_empty)
  have ne: "objGet (buildActive norm fs) key \<noteq> Some (TStr []) \<and>
      (k, []) \<notin> set (filterParams (buildActive norm fs) stringKeys booleanKeys)"
    if "norm \<in> {stocksNorm, runsNorm conv, bulkNorm conv}" for norm
  proof -
    have n: "\<forall>key v. norm key v \<noteq> Some (TStr [])" using that norms_nonempty by blast
    have a: "\<forall>key. objGet (buildActive norm fs) key \<noteq> Some (TStr [])"
      using active_nonempty[OF n] by blast
    show ?thesis using a filterParams_nonempty[OF a] by blast
  qed
  have tr1: "\<exists>raw. objGet fs key = Some raw \<and> t = TStr (trim raw)"
    if "objGet (buildActive stocksNorm fs) key = Some t"
    using that
    by (auto simp: objGet_buildActive stocksNorm_def stringFilter_cases split: option.splits if_splits)
  have tr2: "\<exists>raw. objGet fs key = Some raw \<and> t = TStr (trim raw)"
    if "key \<notin> set [''is_terminal'', ''is_in_progress'', ''created_after'', ''created_before'']"
      "objGet (buildActive (runsNorm conv) fs) key = Some t"
    using that
    by (auto simp: objGet_buildActive runsNorm_def stringFilter_cases split: option.splits if_splits)
  have tr3: "\<exists>raw. objGet fs key = Some raw \<and> t = TStr (trim raw)"
    if "key \<notin> set [''is_completed'', ''has_errors'', ''created_after'', ''created_before'',
                ''started_at_after'', ''started_at_before'', ''completed_at_after'',
                ''completed_at_before'']"
      "objGet (buildActive (bulkNorm conv) fs) key = Some t"
    using that
    by (auto simp: objGet_buildActive bulkNorm_def stringFilter_cases split: option.splits if_splits)
  show ?thesis using blank ne tr1 tr2 tr3 by blast
qed

theorem blank_filters_not_sent_witness:
  "objGet [(''ticker__icontains'', '' ''), (''country'', '' US '')] ''ticker__icontains'' = Some '' '' \<and>
   trim '' '' = [] \<and>
   objGet (buildActive stocksNorm [(''ticker__icontains'', '' ''), (''country'', '' US '')])
          ''ticker__icontains'' = None \<and>
   objGet (buildActive stocksNorm [(''ticker__icontains'', '' ''), (''country'', '' US '')])
          ''country'' = Some (TStr ''US'') \<and>
   (\<exists>raw. objGet [(''ticker__icontains'', '' ''), (''country'', '' US '')] ''country'' = Some raw \<and>
          TStr ''US'' = TStr (trim raw))"
proof -
  let ?fs = "[(''ticker__icontains'', '' ''), (''country'', '' US '')]"
  have g: "objGet ?fs ''ticker__icontains'' = Some '' ''" by (simp add: objGet_def)
  have t: "trim '' '' = []" by (simp add: trim_def isWhitespace_def)
  have c: "objGet (buildActive stocksNorm ?fs) ''country'' = Some (TStr ''US'')"
    by code_simp
  show ?thesis
    using g t c
      blank_filters_not_sent [of ?fs "''ticker__icontains''" "'' ''"]
      blank_filters_not_sent [of ?fs "''country''" _ _ _ _ _ "TStr ''US''"]
    by blast
qed

subsection \<open>Date filters\<close>





subsection \<open>A burst of typing\<close>

lemma cancelTimer_idle: "idle key s \<Longrightarrow> timers (cancelTimer key s) = []"
  by (auto simp: idle_def cancelTimer_def clearTimeout_def split: option.splits)

lemma handle_nonblank:
  assumes "idle key s" "trim v \<noteq> []"
  shows "timers (handleDebouncedFilter cfg key v s) = [(Suc (timerCount s), key, clock s + debounceDelay s)]"
    "objGet (debounceTimers (handleDebouncedFilter cfg key v s)) key = Some (Some (Suc (timerCount s)))"
    "requests (handleDebouncedFilter cfg key v s) = requests s"
    "filters (handleDebouncedFilter cfg key v s) = objSet (filters s) key v"
    "clock (handleDebouncedFilter cfg key v s) = clock s"
    "debounceDelay (handleDebouncedFilter cfg key v s) = debounceDelay s"
    "apiAvailable (handleDebouncedFilter cfg key v s) = apiAvailable s"
    "pageSize (handleDebouncedFilter cfg key v s) = pageSize s"
    "utcOffset (handleDebouncedFilter cfg key v s) = utcOffset s"
  using assms cancelTimer_idle[of key s]
  by (simp_all add: handleDebouncedFilter_def Let_def cancelTimer_fields objGet_objSet)

lemma elapse_wait:
  assumes "timers s = [(i, key, due)]" "clock s + gap < due"
  shows "elapse cfg gap s = s\<lparr>clock := clock s + gap\<rparr>"
  using assms by (simp add: elapse_def Let_def)

lemma elapse_fire:
  assumes "timers s = [(i, key, due)]" "due \<le> clock s + gap"
  shows "elapse cfg gap s = timerFired cfg key (s\<lparr>clock := clock s + gap, timers := []\<rparr>)"
  using assms by (simp add: elapse_def Let_def)

lemma timerFired_requests:
  assumes "apiAvailable s"
  shows "requests (timerFired cfg key s) =
     requests s @ [\<lparr>reqPageSize = pageSize s, reqCursor = None,
                    reqFilters = buildActive (normalise cfg (utcOffset s)) (filters s)\<rparr>]"
    "timers (timerFired cfg key s) = timers s"
  using loadCall_requests[of "resetCursors s" cfg None] assms
  by (simp_all add: timerFired_def Let_def resetCursors_def activeFilters_def loadCall_timers)


lemma one_keystroke:
  assumes "idle key s" "trim v \<noteq> []" "apiAvailable s"
  shows "gap < debounceDelay s \<Longrightarrow>
           idle key (elapse cfg gap (handleDebouncedFilter cfg key v s)) \<and>
           length (timers (elapse cfg gap (handleDebouncedFilter cfg key v s))) = 1 \<and>
           requests (elapse cfg gap (handleDebouncedFilter cfg key v s)) = requests s \<and>
           filters (elapse cfg gap (handleDebouncedFilter cfg key v s)) = objSet (filters s) key v \<and>
           debounceDelay (elapse cfg gap (handleDebouncedFilter cfg key v s)) = debounceDelay s \<and>
           apiAvailable (elapse cfg gap (handleDebouncedFilter cfg key v s)) \<and>
           pageSize (elapse cfg gap (handleDebouncedFilter cfg key v s)) = pageSize s \<and>
           utcOffset (elapse cfg gap (handleDebouncedFilter cfg key v s)) = utcOffset s"
    and "debounceDelay s \<le> gap \<Longrightarrow>
           requests (elapse cfg gap (handleDebouncedFilter cfg key v s)) =
             requests s @ [\<lparr>reqPageSize = pageSize s, reqCursor = None,
                            reqFilters = buildActive (normalise cfg (utcOffset s))
                                                     (objSet (filters s) key v)\<rparr>] \<and>
           timers (elapse cfg gap (handleDebouncedFilter cfg key v s)) = []"
proof -
  let ?h = "handleDebouncedFilter cfg key v s"
  note h = handle_nonblank[OF assms(1,2), of cfg]
  {
    assume g: "gap < debounceDelay s"
    have e: "elapse cfg gap ?h = ?h\<lparr>clock := clock ?h + gap\<rparr>"
      by (rule elapse_wait[OF h(1)]) (simp add: h g)
    show "idle key (elapse cfg gap ?h) \<and>
           length (timers (elapse cfg gap ?h)) = 1 \<and>
           requests (elapse cfg gap ?h) = requests s \<and>
           filters (elapse cfg gap ?h) = objSet (filters s) key v \<and>
           debounceDelay (elapse cfg gap ?h) = debounceDelay s \<and>
           apiAvailable (elapse cfg gap ?h) \<and>
           pageSize (elapse cfg gap ?h) = pageSize s \<and>
           utcOffset (elapse cfg gap ?h) = utcOffset s"
      unfolding e using h assms(3) by (simp add: idle_def)
  }
  {
    assume g: "debounceDelay s \<le> gap"
    let ?f = "?h\<lparr>clock := clock ?h + gap, timers := []\<rparr>"
    have e: "elapse cfg gap ?h = timerFired cfg key ?f"
      by (rule elapse_fire[OF h(1)]) (simp add: h g)
    have a: "apiAvailable ?f" using h assms(3) by simp
    show "requests (elapse cfg gap ?h) =
             requests s @ [\<lparr>reqPageSize = pageSize s, reqCursor = None,
                            reqFilters = buildActive (normalise cfg (utcOffset s))
                                                     (objSet (filters s) key v)\<rparr>] \<and>
           timers (elapse cfg gap ?h) = []"
      unfolding e using timerFired_requests[OF a, of cfg key] h by simp
  }
qed

lemma typing_burst:
  assumes "xs \<noteq> []" "idle key s" "apiAvailable s"
    "\<forall>(v, gap) \<in> set xs. trim v \<noteq> []"
    "\<forall>(v, gap) \<in> set (butlast xs). gap < debounceDelay s"
  shows "(snd (last xs) < debounceDelay s \<longrightarrow>
            requests (typing cfg key xs s) = requests s \<and>
            length (timers (typing cfg key xs s)) = 1) \<and>
         (debounceDelay s \<le> snd (last xs) \<longrightarrow>
            requests (typing cfg key xs s) =
              requests s @ [\<lparr>reqPageSize = pageSize s, reqCursor = None,
                             reqFilters = buildActive (normalise cfg (utcOffset s))
                                            (objSet (filters s) key (fst (last xs)))\<rparr>] \<and>
            timers (typing cfg key xs s) = [])"
  using assms
proof (induction xs arbitrary: s)
  case Nil
  then show ?case by simp
next
  case (Cons x rest)
  obtain v gap where x: "x = (v, gap)" by (cases x)
  have nb: "trim v \<noteq> []" using Cons.prems(4) x by simp
  note k = one_keystroke[OF Cons.prems(2) nb Cons.prems(3), of gap cfg]
  show ?case
  proof (cases "rest = []")
    case True
    then show ?thesis using k x by simp
  next
    case False
    let ?s = "elapse cfg gap (handleDebouncedFilter cfg key v s)"
    have g: "gap < debounceDelay s" using Cons.prems(5) False x by simp
    note k1 = k(1)[OF g]
    have p4: "\<forall>(v, gap) \<in> set rest. trim v \<noteq> []" using Cons.prems(4) by simp
    have p5: "\<forall>(v, gap) \<in> set (butlast rest). gap < debounceDelay ?s"
      using Cons.prems(5) False k1 by simp
    have ih: "(snd (last rest) < debounceDelay ?s \<longrightarrow>
            requests (typing cfg key rest ?s) = requests ?s \<and>
            length (timers (typing cfg key rest ?s)) = 1) \<and>
         (debounceDelay ?s \<le> snd (last rest) \<longrightarrow>
            requests (typing cfg key rest ?s) =
              requests ?s @ [\<lparr>reqPageSize = pageSize ?s, reqCursor = None,
                             reqFilters = buildActive (normalise cfg (utcOffset ?s))
                                            (objSet (filters ?s) key (fst (last rest)))\<rparr>] \<and>
            timers (typing cfg key rest ?s) = [])"
      using Cons.IH[OF False _ _ p4 p5] k1 by blast
    show ?thesis using ih k1 False x by (simp add: objSet_objSet)
  qed
qed

text \<open>Claim C4, as stated, at the stocks store: two updates of
  \<^verbatim>\<open>ticker__icontains\<close> with non-empty values, a space and then \<^verbatim>\<open>a\<close>, 100 ms
  apart with a debounce delay of 400 ms. The space trims to empty and loads at once; the
  second value loads when its timeout fires: two requests.\<close>

theorem blank_keystroke_loads_twice:
  "'' '' \<noteq> [] \<and> ''a'' \<noteq> [] \<and> (100::nat) < debounceDelay stocksInit \<and>
   length (requests (typing stocksList ''ticker__icontains'' [('' '', 100), (''a'', 400)]
                       stocksInit)) = 2"
  by code_simp

text \<open>Claim C4, amended: take a non-empty sequence of debounced updates of one filter key
  whose values are non-empty after trimming, each but the last followed by less than the
  debounce delay of quiet, starting with no timeout pending and the API store present.
  As long as the quiet after the last update is shorter than the delay, no request has
  been made and exactly one timeout is pending: every earlier one was cancelled before the
  next was installed. Once the quiet after the last update reaches the delay, exactly one
  request has been made, without a cursor and with the filters in which the key holds the
  last value of the sequence, and no timeout is pending.\<close>

theorem debounced_burst_loads_once:
  assumes "xs \<noteq> []" and "timers w = []" and "apiAvailable w"
    and "\<forall>(v, gap) \<in> set xs. trim v \<noteq> []"
    and "\<forall>(v, gap) \<in> set (butlast xs). gap < debounceDelay w"
  shows "(snd (last xs) < debounceDelay w \<longrightarrow>
            requests (typing cfg key xs w) = requests w \<and>
            length (timers (typing cfg key xs w)) = 1) \<and>
         (debounceDelay w \<le> snd (last xs) \<longrightarrow>
            requests (typing cfg key xs w) =
              requests w @ [\<lparr>reqPageSize = pageSize w, reqCursor = None,
                             reqFilters = buildActive (normalise cfg (utcOffset w))
                                            (objSet (filters w) key (fst (last xs)))\<rparr>] \<and>
            timers (typing cfg key xs w) = [])"
proof -
  have "idle key w" using assms(2) by (simp add: idle_def)
  then show ?thesis using typing_burst assms(1,3,4,5) by blast
qed

theorem debounced_burst_loads_once_witness:
  "[(''a'', 100), (''ab'', 399), (''abc '', 400::nat)] \<noteq> [] \<and>
   timers stocksInit = [] \<and> apiAvailable stocksInit \<and>
   trim ''a'' \<noteq> [] \<and> trim ''ab'' \<noteq> [] \<and> trim ''abc '' \<noteq> [] \<and>
   100 < debounceDelay stocksInit \<and> 399 < debounceDelay stocksInit \<and>
   debounceDelay stocksInit \<le> 400 \<and>
   requests (typing stocksList ''ticker__icontains''
              [(''a'', 100), (''ab'', 399), (''abc '', 400)] stocksInit) =
     [\<lparr>reqPageSize = 50, reqCursor = None,
       reqFilters = [(''ticker__icontains'', TStr ''abc'')]\<rparr>]"
proof -
  let ?xs = "[(''a'', 100), (''ab'', 399), (''abc '', 400::nat)]"
  have h1: "?xs \<noteq> []" by simp
  have h2: "timers stocksInit = []" and h3: "apiAvailable stocksInit"
    by (simp_all add: stocksInit_def)
  have h4: "\<forall>(v, gap) \<in> set ?xs. trim v \<noteq> []" by (simp add: trim_def isWhitespace_def)
  have h5: "\<forall>(v, gap) \<in> set (butlast ?xs). gap < debounceDelay stocksInit"
    by (simp add: stocksInit_def)
  have d: "debounceDelay stocksInit \<le> snd (last ?xs)" by (simp add: stocksInit_def)
  have b: "buildActive (normalise stocksList (utcOffset stocksInit))
             (objSet (filters stocksInit) ''ticker__icontains'' (fst (last ?xs)))
           = [(''ticker__icontains'', TStr ''abc'')]"
    by code_simp
  have r: "requests stocksInit = []" and p: "pageSize stocksInit = 50"
    by (simp_all add: stocksInit_def)
  have q: "requests (typing stocksList ''ticker__icontains'' ?xs stocksInit) =
             [\<lparr>reqPageSize = 50, reqCursor = None,
               reqFilters = [(''ticker__icontains'', TStr ''abc'')]\<rparr>]"
    using d debounced_burst_loads_once [OF h1 h2 h3 h4 h5, of stocksList "''ticker__icontains''"]
    unfolding b r p by simp
  show ?thesis
    using h2 h3 q by (simp add: trim_def isWhitespace_def stocksInit_def)
qed

end
